theory Spec2Isabelle
  imports Complex_Main
begin

section \<open>Text helpers\<close>

text \<open>
  Python strings are modelled as \<open>string\<close> over ASCII text. Numbers that the source
  computes in binary floating point (confidences, parsed speeds) are modelled as exact
  reals; every value compared below is a quotient of small integers, which floating point
  orders in the same way. The answer text of a response is assembled from templates and
  randomly chosen phrases; it is not part of the model, which keeps the other four fields
  of a response.
\<close>

definition bs :: string where
  "bs = [CHR 0x5C]"

definition sq :: string where
  "sq = [CHR 0x27]"

definition upper_letters :: string where
  "upper_letters = ''ABCDEFGHIJKLMNOPQRSTUVWXYZ''"

definition lower_letters :: string where
  "lower_letters = ''abcdefghijklmnopqrstuvwxyz''"

definition lower_char :: "char \<Rightarrow> char" where
  "lower_char c = (case map_of (zip upper_letters lower_letters) c of Some d \<Rightarrow> d | None \<Rightarrow> c)"

definition upper_char :: "char \<Rightarrow> char" where
  "upper_char c = (case map_of (zip lower_letters upper_letters) c of Some d \<Rightarrow> d | None \<Rightarrow> c)"

definition lower :: "string \<Rightarrow> string" where
  "lower s = map lower_char s"

definition upper :: "string \<Rightarrow> string" where
  "upper s = map upper_char s"

definition is_alpha :: "char \<Rightarrow> bool" where
  "is_alpha c = (c \<in> set (upper_letters @ lower_letters))"

definition is_digit :: "char \<Rightarrow> bool" where
  "is_digit c = (c \<in> set ''0123456789'')"

definition is_word_char :: "char \<Rightarrow> bool" where
  "is_word_char c = (is_alpha c \<or> is_digit c \<or> c = CHR ''_'')"

definition is_space :: "char \<Rightarrow> bool" where
  "is_space c = (c \<in> set [CHR 0x09, CHR 0x0A, CHR 0x0B, CHR 0x0C, CHR 0x0D,
                            CHR 0x1C, CHR 0x1D, CHR 0x1E, CHR 0x1F, CHR 0x20])"

text \<open>\<open>str.title()\<close>: a letter after a letter is lowered, any other letter is raised.\<close>

fun title_from :: "bool \<Rightarrow> string \<Rightarrow> string" where
  "title_from prev [] = []"
| "title_from prev (c # cs) =
     (if is_alpha c then (if prev then lower_char c else upper_char c) # title_from True cs
      else c # title_from False cs)"

definition title :: "string \<Rightarrow> string" where
  "title s = title_from False s"

fun starts_with :: "string \<Rightarrow> string \<Rightarrow> bool" where
  "starts_with [] s = True"
| "starts_with (p # ps) [] = False"
| "starts_with (p # ps) (c # cs) = (p = c \<and> starts_with ps cs)"

text \<open>\<open>sub in s\<close>.\<close>

fun contains :: "string \<Rightarrow> string \<Rightarrow> bool" where
  "contains sub [] = (sub = [])"
| "contains sub (c # cs) = (starts_with sub (c # cs) \<or> contains sub cs)"

text \<open>\<open>any(k in s for k in ks)\<close>.\<close>

definition any_in :: "string list \<Rightarrow> string \<Rightarrow> bool" where
  "any_in ks s = list_ex (\<lambda>k. contains k s) ks"

definition strip :: "string \<Rightarrow> string" where
  "strip s = rev (dropWhile is_space (rev (dropWhile is_space s)))"

text \<open>\<open>s.split()\<close>: the maximal runs of characters that are not whitespace.\<close>

fun split_from :: "string \<Rightarrow> string \<Rightarrow> string list" where
  "split_from cur [] = (if cur = [] then [] else [cur])"
| "split_from cur (c # cs) =
     (if is_space c then (if cur = [] then split_from [] cs else cur # split_from [] cs)
      else split_from (cur @ [c]) cs)"

definition split :: "string \<Rightarrow> string list" where
  "split s = split_from [] s"

text \<open>The maximal runs of word characters, as \<open>re.findall(r'\b\w+\b', s)\<close> lists them.\<close>

fun words_from :: "string \<Rightarrow> string \<Rightarrow> string list" where
  "words_from cur [] = (if cur = [] then [] else [cur])"
| "words_from cur (c # cs) =
     (if is_word_char c then words_from (cur @ [c]) cs
      else if cur = [] then words_from [] cs else cur # words_from [] cs)"

fun join :: "string \<Rightarrow> string list \<Rightarrow> string" where
  "join sep [] = []"
| "join sep [w] = w"
| "join sep (w # v # ws) = w @ sep @ join sep (v # ws)"

text \<open>
  \<open>s.replace(old, new)\<close>: occurrences are replaced from the left and do not overlap.
  The counter is the number of characters of a replaced occurrence still to be skipped.
\<close>

fun replace_from :: "nat \<Rightarrow> string \<Rightarrow> string \<Rightarrow> string \<Rightarrow> string" where
  "replace_from k old new [] = []"
| "replace_from (Suc k) old new (c # cs) = replace_from k old new cs"
| "replace_from 0 old new (c # cs) =
     (if starts_with old (c # cs) then new @ replace_from (length old - 1) old new cs
      else c # replace_from 0 old new cs)"

definition replace :: "string \<Rightarrow> string \<Rightarrow> string \<Rightarrow> string" where
  "replace old new s =
     (if old = [] then new @ concat (map (\<lambda>c. c # new) s) else replace_from 0 old new s)"

definition digit_val :: "char \<Rightarrow> nat" where
  "digit_val c = length (takeWhile (\<lambda>d. d \<noteq> c) ''0123456789'')"

definition nat_of_digits :: "string \<Rightarrow> nat" where
  "nat_of_digits ds = foldl (\<lambda>n c. 10 * n + digit_val c) 0 ds"

text \<open>\<open>float(s)\<close> for a string of the shape \<open>digits\<close> or \<open>digits.digits\<close>.\<close>

definition float_of_decimal :: "string \<Rightarrow> string \<Rightarrow> real" where
  "float_of_decimal ip fp = real (nat_of_digits ip) + real (nat_of_digits fp) / 10 ^ length fp"

text \<open>
  \<open>re.search(r'(\d+(?:\.\d+)?)', s)\<close>: the leftmost digit run, extended by a dot and a
  further digit run when both are there. The result is the integer part and the fraction
  digits (empty without a fraction); \<open>None\<close> when the text has no digit.
\<close>

definition search_number :: "string \<Rightarrow> (string \<times> string) option" where
  "search_number s =
     (case dropWhile (\<lambda>c. \<not> is_digit c) s of
        [] \<Rightarrow> None
      | ds \<Rightarrow>
          (let ip = takeWhile is_digit ds; rest = dropWhile is_digit ds
           in case rest of
                c # r \<Rightarrow>
                  (if c = CHR ''.'' \<and> takeWhile is_digit r \<noteq> []
                   then Some (ip, takeWhile is_digit r)
                   else Some (ip, []))
              | [] \<Rightarrow> Some (ip, [])))"

text \<open>\<open>re.search(r'(\d+)', s)\<close>: the leftmost digit run.\<close>

definition search_digits :: "string \<Rightarrow> string option" where
  "search_digits s =
     (case dropWhile (\<lambda>c. \<not> is_digit c) s of
        [] \<Rightarrow> None
      | ds \<Rightarrow> Some (takeWhile is_digit ds))"

text \<open>The first element that a function maps to a result, with that result.\<close>

fun first_some :: "('a \<Rightarrow> 'b option) \<Rightarrow> 'a list \<Rightarrow> 'b option" where
  "first_some f [] = None"
| "first_some f (x # xs) = (case f x of Some y \<Rightarrow> Some y | None \<Rightarrow> first_some f xs)"

text \<open>\<open>max(xs, key=f)\<close> on a list: the first element whose key no other exceeds.\<close>

fun first_max :: "('a \<Rightarrow> 'b::linorder) \<Rightarrow> 'a \<Rightarrow> 'a list \<Rightarrow> 'a" where
  "first_max f b [] = b"
| "first_max f b (x # xs) = (if f x > f b then first_max f x xs else first_max f b xs)"

section \<open>External collaborators\<close>

text \<open>
  The regular-expression engine, the fuzzy string scorers and the full-text index of
  the storage engine are libraries outside the repository. They are parameters of the
  model. \<open>re_search flag pat s\<close> is \<open>re.search(pat, s)\<close> (with \<open>re.IGNORECASE\<close> when the
  flag is set) and yields the groups of the match; \<open>re_sub\<close> is \<open>re.sub\<close>. The four
  scorers are those of the fuzzy matching library, with its preprocessing. \<open>fts_match\<close> is
  the full-text query of the storage engine on one table: the best row with its rank, or
  nothing when no row matches or the query fails.
\<close>

datatype kind = Characters | Vehicles | Locations | Storylines | Organizations

record entity =
  e_id :: string
  e_name :: string
  e_description :: string

record libs =
  re_search :: "bool \<Rightarrow> string \<Rightarrow> string \<Rightarrow> string list option"
  re_sub :: "bool \<Rightarrow> string \<Rightarrow> string \<Rightarrow> string \<Rightarrow> string"
  wratio :: "string \<Rightarrow> string \<Rightarrow> nat"
  ratio :: "string \<Rightarrow> string \<Rightarrow> nat"
  partial_ratio :: "string \<Rightarrow> string \<Rightarrow> nat"
  token_sort_ratio :: "string \<Rightarrow> string \<Rightarrow> nat"
  fts_match :: "kind \<Rightarrow> string \<Rightarrow> (entity \<times> real) option"

text \<open>Fragments of the patterns: \<open>\s\<close>, the possessive ending, and the end of a question.\<close>

definition ws :: string where
  "ws = bs @ ''s''"

definition poss :: string where
  "poss = ''(?:'' @ bs @ sq @ ''s|s)''"

definition qend :: string where
  "qend = ''(?:'' @ bs @ ''?|$)''"

text \<open>Group \<open>n\<close> of a match (the patterns below have all the groups they are asked for).\<close>

definition group :: "nat \<Rightarrow> string list \<Rightarrow> string" where
  "group n gs = (if 0 < n \<and> n \<le> length gs then gs ! (n - 1) else [])"

text \<open>The groups of the first pattern of a list that matches.\<close>

definition first_match :: "libs \<Rightarrow> string list \<Rightarrow> string \<Rightarrow> string list option" where
  "first_match L pats s = first_some (\<lambda>p. re_search L False p s) pats"

text \<open>
  \<open>process.extract(query, choices, limit=n)\<close> of the fuzzy matching library: every
  choice is scored against the query, and the \<open>n\<close> best are returned with their scores,
  best first, equal scores in the order of the choices.
\<close>

definition process_extract :: "libs \<Rightarrow> string \<Rightarrow> string list \<Rightarrow> nat \<Rightarrow> (string \<times> nat) list" where
  "process_extract L query choices limit =
     take limit (sort_key (\<lambda>p. - int (snd p)) (map (\<lambda>c. (c, wratio L query c)) choices))"

section \<open>Storage\<close>

text \<open>
  The tables the pipeline reads, as lists of rows in storage order. The import step
  writes every text column with the empty text as default, so a row carries texts.
  A specification row keeps the two columns that the comparison engine reads apart from
  the eight other text columns.
\<close>

record spec_row =
  vs_vehicle_id :: string
  vs_max_speed :: string
  vs_armor :: string
  vs_other :: "string list"

record database =
  characters :: "entity list"
  vehicles :: "entity list"
  locations :: "entity list"
  storylines :: "entity list"
  organizations :: "entity list"
  character_aliases :: "(string \<times> string) list"
  character_powers :: "(string \<times> string) list"
  character_locations :: "(string \<times> string \<times> string) list"
  character_relationships :: "(string \<times> string \<times> string) list"
  vehicle_users :: "(string \<times> string) list"
  vehicle_weapons :: "(string \<times> string) list"
  vehicle_defensive_systems :: "(string \<times> string) list"
  vehicle_special_features :: "(string \<times> string) list"
  vehicle_specifications :: "spec_row list"

fun table :: "database \<Rightarrow> kind \<Rightarrow> entity list" where
  "table db Characters = characters db"
| "table db Vehicles = vehicles db"
| "table db Locations = locations db"
| "table db Storylines = storylines db"
| "table db Organizations = organizations db"

fun table_name :: "kind \<Rightarrow> string" where
  "table_name Characters = ''characters''"
| "table_name Vehicles = ''vehicles''"
| "table_name Locations = ''locations''"
| "table_name Storylines = ''storylines''"
| "table_name Organizations = ''organizations''"

definition all_kinds :: "kind list" where
  "all_kinds = [Characters, Vehicles, Locations, Storylines, Organizations]"

text \<open>
  \<open>s LIKE pat\<close> of the storage engine: \<open>%\<close> stands for any text, \<open>_\<close> for any one
  character, and letters match without regard to case.
\<close>

fun like_match :: "string \<Rightarrow> string \<Rightarrow> bool" where
  "like_match [] s = (s = [])"
| "like_match (p # ps) [] = (p = CHR ''%'' \<and> like_match ps [])"
| "like_match (p # ps) (c # cs) =
     (if p = CHR ''%'' then like_match ps (c # cs) \<or> like_match (p # ps) cs
      else (p = CHR ''_'' \<or> p = c) \<and> like_match ps cs)"

definition sql_like :: "string \<Rightarrow> string \<Rightarrow> bool" where
  "sql_like pat s = like_match (lower pat) (lower s)"

text \<open>\<open>SELECT * FROM table WHERE name = ?\<close> and \<open>... WHERE name LIKE ?\<close>, first row.\<close>

definition select_name_eq :: "entity list \<Rightarrow> string \<Rightarrow> entity option" where
  "select_name_eq rows n = find (\<lambda>r. e_name r = n) rows"

definition select_name_like :: "entity list \<Rightarrow> string \<Rightarrow> entity option" where
  "select_name_like rows pat = find (\<lambda>r. sql_like pat (e_name r)) rows"

text \<open>\<open>SELECT * FROM table WHERE id = ? LIMIT 1\<close>.\<close>

definition get_entity_by_id :: "database \<Rightarrow> string \<Rightarrow> kind \<Rightarrow> entity option" where
  "get_entity_by_id db entity_id entity_type = find (\<lambda>r. e_id r = entity_id) (table db entity_type)"

section \<open>Query processor\<close>

datatype match_kind = Fuzzy | Alias | Description | Character_vehicle

record entity_match =
  em_entity_id :: string
  em_entity_type :: kind
  em_name :: string
  em_confidence :: real
  em_match_type :: match_kind

record cache_entry =
  ce_id :: string
  ce_name :: string
  ce_description :: string
  ce_is_alias :: bool
  ce_real_name :: "string option"

definition plain_entry :: "entity \<Rightarrow> cache_entry" where
  "plain_entry r =
     \<lparr>ce_id = e_id r, ce_name = e_name r, ce_description = e_description r,
      ce_is_alias = False, ce_real_name = None\<rparr>"

text \<open>
  The rows \<open>(c.id, c.name, ca.alias)\<close> of the join of the characters with their aliases
  on \<open>c.id = ca.character_id\<close>. The storage engine chooses the order of the joined rows;
  the model lists them character by character.
\<close>

definition alias_rows :: "database \<Rightarrow> (string \<times> string \<times> string) list" where
  "alias_rows db =
     concat (map (\<lambda>c. map (\<lambda>ca. (e_id c, e_name c, snd ca))
                          (filter (\<lambda>ca. fst ca = e_id c) (character_aliases db)))
                 (characters db))"

definition alias_entry :: "string \<times> string \<times> string \<Rightarrow> cache_entry" where
  "alias_entry row =
     \<lparr>ce_id = fst row, ce_name = snd (snd row), ce_description = [],
      ce_is_alias = True, ce_real_name = Some (fst (snd row))\<rparr>"

fun build_entity_cache :: "database \<Rightarrow> kind \<Rightarrow> cache_entry list" where
  "build_entity_cache db Characters =
     map plain_entry (characters db) @ map alias_entry (alias_rows db)"
| "build_entity_cache db Vehicles = map plain_entry (vehicles db)"
| "build_entity_cache db Locations = map plain_entry (locations db)"
| "build_entity_cache db Storylines = map plain_entry (storylines db)"
| "build_entity_cache db Organizations = map plain_entry (organizations db)"

definition alias_mappings :: "(string \<times> string) list" where
  "alias_mappings =
     [(''city of gotham'', ''gotham city''),
      (''batman'' @ sq @ ''s base'', ''batcave''),
      (''batman base'', ''batcave''),
      (''where does batman live'', ''wayne manor''),
      (''batman'' @ sq @ ''s car'', ''batmobile''),
      (''batman car'', ''batmobile''),
      (''what does batman drive'', ''batmobile''),
      (''batman'' @ sq @ ''s plane'', ''batwing''),
      (''batman plane'', ''batwing''),
      (''dark knight'', ''batman''),
      (''caped crusader'', ''batman''),
      (''world'' @ sq @ ''s greatest detective'', ''batman''),
      (''clown prince of crime'', ''joker''),
      (''scarecrow real name'', ''jonathan crane''),
      (''scarecrow'' @ sq @ ''s real name'', ''jonathan crane''),
      (''batman'' @ sq @ ''s primary mode of transportation'', ''batmobile'')]"

definition stop_words :: "string list" where
  "stop_words = [''who'', ''is'', ''what'', ''where'', ''the'', ''a'', ''an'', ''tell'', ''me'',
                 ''about'', ''does'', ''usually'', ''operate'']"

definition clean_query_for_matching :: "string \<Rightarrow> string" where
  "clean_query_for_matching query =
     (let query_lower = lower query;
          replaced = (case find (\<lambda>m. contains (fst m) query_lower) alias_mappings of
                        Some m \<Rightarrow> replace (fst m) (snd m) query_lower
                      | None \<Rightarrow> query_lower);
          cleaned_words =
            filter (\<lambda>w. w \<noteq> [] \<and> w \<notin> set stop_words)
              (map (filter (\<lambda>c. is_word_char c \<or> is_space c)) (split replaced))
      in join '' '' cleaned_words)"

definition keyword_stop_words :: "string list" where
  "keyword_stop_words = [''who'', ''is'', ''what'', ''where'', ''when'', ''how'', ''the'', ''a'',
                         ''an'', ''and'', ''or'', ''but'', ''tell'', ''me'', ''about'', ''can'',
                         ''you'']"

definition extract_keywords :: "string \<Rightarrow> string list" where
  "extract_keywords query =
     filter (\<lambda>w. w \<notin> set keyword_stop_words \<and> length w > 2) (words_from [] (lower query))"

definition main_characters :: "string list" where
  "main_characters = [''batman'', ''robin'', ''joker'', ''catwoman'', ''penguin'', ''riddler'',
                      ''two_face'', ''harvey_dent'', ''scarecrow'', ''poison_ivy'', ''mr_freeze'',
                      ''bane'', ''harley_quinn'', ''ra_s_al_ghul'', ''alfred'',
                      ''commissioner_gordon'', ''batgirl'', ''nightwing'', ''red_hood'',
                      ''red_robin'']"

definition main_locations :: "string list" where
  "main_locations = [''gotham_city'', ''arkham_asylum'', ''wayne_manor'', ''batcave'', ''gcpd'',
                     ''ace_chemicals'', ''blackgate_prison'']"

definition main_vehicles :: "string list" where
  "main_vehicles = [''batmobile'', ''batplane'', ''batwing'', ''batboat'']"

definition calculate_importance_bonus :: "string \<Rightarrow> kind \<Rightarrow> real" where
  "calculate_importance_bonus entity_name entity_type =
     (let name_lower = lower entity_name
      in if entity_type = Characters \<and> any_in main_characters name_lower then 0.2
         else if entity_type = Locations \<and> any_in main_locations name_lower then 0.15
         else if entity_type = Vehicles \<and> any_in main_vehicles name_lower then 0.15
         else if length (split (replace ''_'' '' '' entity_name)) \<le> 2 then 0.05
         else 0)"

text \<open>
  The \<open>EntityMatch\<close> built from a cache entry: an alias entry gives its character's id
  and canonical name.
\<close>

definition entity_match_of :: "cache_entry \<Rightarrow> kind \<Rightarrow> real \<Rightarrow> entity_match" where
  "entity_match_of matched_entity etype conf =
     \<lparr>em_entity_id = ce_id matched_entity,
      em_entity_type = etype,
      em_name = (case ce_real_name matched_entity of Some n \<Rightarrow> n
                 | None \<Rightarrow> ce_name matched_entity),
      em_confidence = conf,
      em_match_type = (if ce_is_alias matched_entity then Alias else Fuzzy)\<rparr>"

text \<open>
  The candidates of one entity type in \<open>find_best_entity_match\<close>, each with its final
  score. \<open>candidate_of\<close> is the body of the loop over the matches of the fuzzy library. The
  lookup of the matched name in the cache always succeeds, since the names come from the
  cache.
\<close>

definition candidate_of ::
  "cache_entry list \<Rightarrow> nat \<Rightarrow> kind \<Rightarrow> string \<times> nat \<Rightarrow> (entity_match \<times> real) list" where
  "candidate_of entries threshold etype m =
     (if snd m \<ge> max threshold 50 then
        (case find (\<lambda>e. ce_name e = fst m) entries of
           Some matched_entity \<Rightarrow>
             [(entity_match_of matched_entity etype (real (snd m) / 100),
               real (snd m) + calculate_importance_bonus (ce_name matched_entity) etype * 100)]
         | None \<Rightarrow> [])
      else [])"

definition candidates ::
  "libs \<Rightarrow> (kind \<Rightarrow> cache_entry list) \<Rightarrow> string \<Rightarrow> nat \<Rightarrow> kind \<Rightarrow> (entity_match \<times> real) list" where
  "candidates L cache clean_query threshold etype =
     (let entries = cache etype
      in if entries = [] then []
         else concat (map (candidate_of entries threshold etype)
                          (process_extract L clean_query (map ce_name entries) 5)))"

definition select_best ::
  "(entity_match \<times> real) list \<Rightarrow> entity_match option \<times> real \<Rightarrow> entity_match option \<times> real" where
  "select_best cands st =
     fold (\<lambda>c best. if snd c > snd best then (Some (fst c), snd c) else best) cands st"

definition find_best_entity_match ::
  "libs \<Rightarrow> (kind \<Rightarrow> cache_entry list) \<Rightarrow> string \<Rightarrow> kind option \<Rightarrow> nat \<Rightarrow> entity_match option" where
  "find_best_entity_match L cache query entity_type threshold =
     (let clean_query = clean_query_for_matching query;
          search_types = (case entity_type of Some k \<Rightarrow> [k] | None \<Rightarrow> all_kinds)
      in fst (fold (\<lambda>etype best. select_best (candidates L cache clean_query threshold etype) best)
                   search_types (None, 0)))"

definition entity_importance :: "(string \<times> real) list" where
  "entity_importance =
     [(''Batman'', 100), (''Joker'', 95), (''Robin_(Dick_Grayson)'', 90),
      (''Robin_(Tim_Drake)'', 85), (''Robin_(Damian_Wayne)'', 80), (''Alfred_Pennyworth'', 85),
      (''Commissioner_Gordon'', 80), (''Nightwing'', 80), (''Batgirl'', 75), (''Catwoman'', 80),
      (''Two-Face'', 70), (''Penguin'', 70), (''Riddler'', 70), (''Bane'', 75),
      (''Scarecrow'', 65), (''Harley_Quinn'', 70), (''Poison_Ivy'', 65), (''Batmobile'', 90),
      (''Batwing'', 80), (''Wayne_Manor'', 80), (''Gotham_City'', 90), (''Arkham_Asylum'', 75)]"

definition importance_boost :: "string \<Rightarrow> real" where
  "importance_boost n = (case map_of entity_importance n of Some v \<Rightarrow> v | None \<Rightarrow> 0)"

text \<open>The body of the loop over the matches in \<open>find_multiple_entities\<close>.\<close>

definition boosted_match_of ::
  "cache_entry list \<Rightarrow> nat \<Rightarrow> kind \<Rightarrow> string \<times> nat \<Rightarrow> entity_match list" where
  "boosted_match_of entries threshold entity_type m =
     (if snd m \<ge> threshold then
        (case find (\<lambda>e. ce_name e = fst m) entries of
           Some matched_entity \<Rightarrow>
             [entity_match_of matched_entity entity_type
                (min ((real (snd m) + importance_boost (ce_name matched_entity) * 0.1) / 100) 1)]
         | None \<Rightarrow> [])
      else [])"

definition multi_matches ::
  "libs \<Rightarrow> (kind \<Rightarrow> cache_entry list) \<Rightarrow> string \<Rightarrow> nat \<Rightarrow> kind \<Rightarrow> entity_match list" where
  "multi_matches L cache clean_query threshold entity_type =
     (let entries = cache entity_type
      in if entries = [] then []
         else concat (map (boosted_match_of entries threshold entity_type)
                          (process_extract L clean_query (map ce_name entries) 8)))"

definition find_multiple_entities ::
  "libs \<Rightarrow> (kind \<Rightarrow> cache_entry list) \<Rightarrow> string \<Rightarrow> nat \<Rightarrow> nat \<Rightarrow> entity_match list" where
  "find_multiple_entities L cache query max_results threshold =
     (let clean_query = clean_query_for_matching query
      in take max_results
           (sort_key (\<lambda>m. - em_confidence m)
              (concat (map (multi_matches L cache clean_query threshold) all_kinds))))"

definition keyword_score :: "string list \<Rightarrow> cache_entry \<Rightarrow> nat" where
  "keyword_score keywords e =
     (let description = lower (ce_description e); nm = lower (ce_name e);
          score = sum_list (map (\<lambda>k. if contains k nm then 20
                                       else if contains k description then 10 else 0) keywords);
          keyword_matches = length (filter (\<lambda>k. contains k description \<or> contains k nm) keywords)
      in if keyword_matches > 1 then score + keyword_matches * 5 else score)"

definition semantic_search ::
  "(kind \<Rightarrow> cache_entry list) \<Rightarrow> string \<Rightarrow> kind option \<Rightarrow> nat \<Rightarrow> entity_match list" where
  "semantic_search cache query entity_type max_results =
     (let search_types = (case entity_type of Some k \<Rightarrow> [k] | None \<Rightarrow> all_kinds);
          keywords = extract_keywords query;
          matches = concat (map (\<lambda>etype.
                      concat (map (\<lambda>e.
                        if keyword_score keywords e > 0 then
                          [\<lparr>em_entity_id = ce_id e, em_entity_type = etype, em_name = ce_name e,
                            em_confidence = min (real (keyword_score keywords e) / 100) 1,
                            em_match_type = Description\<rparr>]
                        else []) (cache etype))) search_types)
      in take max_results (sort_key (\<lambda>m. - em_confidence m) matches))"

datatype ambiguous_result =
    No_matches "string list"
  | Single_match entity_match
  | Multiple_matches "entity_match list" "string list"

definition get_random_suggestions :: "string list" where
  "get_random_suggestions =
     take 3 [''Batman'', ''Joker'', ''Batmobile'', ''Gotham City'', ''Robin'', ''Alfred'',
             ''Catwoman'', ''Bane'', ''Two-Face'', ''Arkham Asylum'']"

definition handle_ambiguous_query ::
  "libs \<Rightarrow> (kind \<Rightarrow> cache_entry list) \<Rightarrow> string \<Rightarrow> ambiguous_result" where
  "handle_ambiguous_query L cache query =
     (case find_multiple_entities L cache query 5 50 of
        [] \<Rightarrow> No_matches get_random_suggestions
      | [m] \<Rightarrow> Single_match m
      | potential_matches \<Rightarrow> Multiple_matches potential_matches (map em_name potential_matches))"

definition is_character_vehicle_match :: "string \<Rightarrow> string \<Rightarrow> bool" where
  "is_character_vehicle_match character_name vehicle_name =
     (let character_lower = lower character_name; vehicle_lower = lower vehicle_name
      in if contains character_lower vehicle_lower then True
         else if character_lower = ''batman'' then
           any_in [''batmobile'', ''batcycle'', ''batwing'', ''batboat'', ''batcopter''] vehicle_lower
         else if character_lower = ''joker'' then False
         else if character_lower \<in> set [''two face'', ''two-face'', ''twoface''] then
           any_in [''two-face'', ''two_face'', ''twoface''] vehicle_lower
         else if character_lower = ''penguin'' then contains ''penguin'' vehicle_lower
         else if character_lower = ''riddler'' then contains ''riddler'' vehicle_lower
         else if character_lower = ''catwoman'' then
           any_in [''catwoman'', ''catmobile'', ''catcycle'', ''catboat''] vehicle_lower
         else if character_lower \<in> set [''harvey dent'', ''harvey''] then
           any_in [''two-face'', ''two_face'', ''harvey'', ''dent''] vehicle_lower
         else False)"

definition context_bonus :: "string \<Rightarrow> string \<Rightarrow> string \<Rightarrow> int" where
  "context_bonus vehicle_name character_name query_lower =
     (if contains ''drive'' query_lower \<or> contains ''car'' query_lower then
        (if any_in [''mobile'', ''car'', ''vehicle''] vehicle_name then 25
         else if any_in [''cycle'', ''bike''] vehicle_name then 15
         else if any_in [''copter'', ''plane'', ''wing''] vehicle_name then 5
         else if any_in [''boat'', ''sub'', ''ship'', ''submarine''] vehicle_name then
           (if lower character_name = ''penguin'' \<and> contains ''submarine'' vehicle_name
            then 15 else - 10)
         else if any_in [''train'', ''rail''] vehicle_name then - 15
         else 0)
      else 0)"

definition iconic_bonus :: "string \<Rightarrow> string \<Rightarrow> int" where
  "iconic_bonus vehicle_name character_name =
     (if lower character_name = ''joker'' then
        (if contains ''jokermobile'' vehicle_name \<and> \<not> contains ''dozierverse'' vehicle_name then 30
         else if contains ''jokermobile'' vehicle_name then 20
         else if contains ''goon_car'' vehicle_name then 10
         else 0)
      else if lower character_name = ''batman'' then
        (if vehicle_name = ''batmobile''
            \<or> (contains ''batmobile'' vehicle_name
                \<and> length (filter (\<lambda>c. c = CHR ''_'') vehicle_name) + 1 \<le> 2)
         then 30 else 0)
      else if lower character_name = ''penguin'' then
        (if contains ''submarine'' vehicle_name then 30
         else if contains ''penguin'' vehicle_name then 20
         else 0)
      else 0)"

definition calculate_vehicle_score :: "libs \<Rightarrow> cache_entry \<Rightarrow> string \<Rightarrow> string \<Rightarrow> int" where
  "calculate_vehicle_score L vehicle character_name query =
     (let vehicle_name = lower (ce_name vehicle);
          fuzzy_score = int (ratio L (lower character_name) vehicle_name)
      in fuzzy_score
         + context_bonus vehicle_name character_name (lower query)
         + iconic_bonus vehicle_name character_name
         - (if contains ''('' vehicle_name \<or> contains ''verse'' vehicle_name then 5 else 0)
         - (if contains ''%'' vehicle_name then 3 else 0))"

definition find_character_vehicle ::
  "libs \<Rightarrow> (kind \<Rightarrow> cache_entry list) \<Rightarrow> string \<Rightarrow> string \<Rightarrow> int \<Rightarrow> entity_match option" where
  "find_character_vehicle L cache character_name original_query threshold =
     (let character_vehicles =
            filter (\<lambda>v. is_character_vehicle_match character_name (ce_name v)) (cache Vehicles);
          scored_vehicles =
            filter (\<lambda>p. snd p \<ge> threshold)
              (map (\<lambda>v. (v, calculate_vehicle_score L v character_name original_query))
                   character_vehicles)
      in case scored_vehicles of
           [] \<Rightarrow> None
         | p # ps \<Rightarrow>
             (let best = first_max snd p ps
              in Some \<lparr>em_entity_id = ce_id (fst best), em_entity_type = Vehicles,
                       em_name = ce_name (fst best),
                       em_confidence = min (real_of_int (snd best) / 100) 1,
                       em_match_type = Character_vehicle\<rparr>))"

definition character_patterns :: "string list" where
  "character_patterns =
     [''what (?:does|do) (.+?) (?:drive|use|pilot|operate)'',
      ''what (?:car|vehicle|transportation) (?:does|do) (.+?) (?:drive|use|have)'',
      ''(.+?)'' @ poss @ '' (?:car|vehicle|mobile)'']"

definition find_best_vehicle_match ::
  "libs \<Rightarrow> (kind \<Rightarrow> cache_entry list) \<Rightarrow> string \<Rightarrow> nat \<Rightarrow> entity_match option" where
  "find_best_vehicle_match L cache query threshold =
     (let clean_query = clean_query_for_matching query;
          original_query = lower query;
          character_name = (case first_match L character_patterns original_query of
                              Some gs \<Rightarrow> strip (group 1 gs)
                            | None \<Rightarrow> [])
      in if character_name \<noteq> [] then
           find_character_vehicle L cache character_name original_query (int (min threshold 40))
         else find_best_entity_match L cache clean_query (Some Vehicles) threshold)"

text \<open>
  The candidates that \<open>find_best_entity_match\<close> goes through, over all the entity types it
  searches, in the order of the search.
\<close>

definition considered ::
  "libs \<Rightarrow> (kind \<Rightarrow> cache_entry list) \<Rightarrow> string \<Rightarrow> kind option \<Rightarrow> nat \<Rightarrow> (entity_match \<times> real) list" where
  "considered L cache query entity_type threshold =
     concat (map (candidates L cache (clean_query_for_matching query) threshold)
                 (case entity_type of Some k \<Rightarrow> [k] | None \<Rightarrow> all_kinds))"

section \<open>Enhanced comparison engine\<close>

text \<open>
  A specification dictionary as \<open>_get_vehicle_specs\<close> and \<open>_estimate_vehicle_specs\<close>
  build it. A field is \<open>None\<close> when the key is absent, so that \<open>specs.get(key, default)\<close>
  can fall back to its default.
\<close>

record vehicle_specs =
  max_speed :: "string option"
  armor_rating :: "int option"
  weapons_count :: "int option"
  defense_count :: "int option"

text \<open>The result of a comparison, without its explanation text.\<close>

record comparison =
  winner :: "string option"
  cmp_confidence :: real

definition extract_speed_number :: "string \<Rightarrow> real" where
  "extract_speed_number speed_str =
     (if speed_str = [] \<or> speed_str = ''Unknown'' then 0
      else case search_number speed_str of
             Some (ip, fp) \<Rightarrow> float_of_decimal ip fp
           | None \<Rightarrow> 0)"

text \<open>
  The result dictionary of \<open>_compare_vehicle_speed\<close>: winner and confidence, then the two
  raw speed texts.
\<close>

definition compare_vehicle_speed ::
  "string \<Rightarrow> string \<Rightarrow> vehicle_specs \<Rightarrow> vehicle_specs \<Rightarrow> comparison \<times> string \<times> string" where
  "compare_vehicle_speed name1 name2 specs1 specs2 =
     (let speed1_str = (case max_speed specs1 of Some s \<Rightarrow> s | None \<Rightarrow> ''0 mph'');
          speed2_str = (case max_speed specs2 of Some s \<Rightarrow> s | None \<Rightarrow> ''0 mph'');
          speed1_num = extract_speed_number speed1_str;
          speed2_num = extract_speed_number speed2_str
      in if speed1_num > speed2_num then
           (\<lparr>winner = Some name1, cmp_confidence = 0.8\<rparr>, speed1_str, speed2_str)
         else if speed2_num > speed1_num then
           (\<lparr>winner = Some name2, cmp_confidence = 0.8\<rparr>, speed1_str, speed2_str)
         else
           (\<lparr>winner = None, cmp_confidence = 0.6\<rparr>, speed1_str, speed2_str))"


datatype error = KeyError | RecursionError

text \<open>The \<open>logic\<close> entry of each comparison pattern of the engine.\<close>

definition comparison_logic :: "(string \<times> string) list" where
  "comparison_logic =
     [(''strength'', ''strength_ranking''), (''intelligence'', ''intelligence_ranking''),
      (''speed'', ''speed_comparison''), (''combat'', ''combat_ranking''),
      (''armor'', ''armor_comparison''), (''weapons'', ''weapons_comparison'')]"

definition character_rankings :: "(string \<times> (string \<times> int) list) list" where
  "character_rankings =
     [(''strength'',
       [(''superman'', 10), (''doomsday'', 10), (''darkseid'', 10), (''bane'', 9),
        (''killer_croc'', 8), (''clayface'', 8), (''batman'', 7), (''nightwing'', 6),
        (''robin'', 5), (''batgirl'', 5), (''catwoman'', 5), (''two-face'', 4), (''penguin'', 3),
        (''joker'', 3), (''riddler'', 2), (''scarecrow'', 2), (''alfred'', 2)]),
      (''intelligence'',
       [(''batman'', 10), (''oracle'', 10), (''mr_terrific'', 10), (''lex_luthor'', 9),
        (''riddler'', 8), (''ra'' @ sq @ ''s_al_ghul'', 8), (''joker'', 7), (''two-face'', 7),
        (''penguin'', 6), (''nightwing'', 7), (''robin'', 6), (''catwoman'', 6), (''bane'', 6),
        (''scarecrow'', 7), (''alfred'', 8)]),
      (''speed'',
       [(''flash'', 10), (''superman'', 9), (''nightwing'', 7), (''batman'', 6), (''robin'', 6),
        (''catwoman'', 7), (''batgirl'', 6), (''joker'', 4), (''bane'', 3), (''penguin'', 2),
        (''riddler'', 3)]),
      (''combat_skill'',
       [(''batman'', 10), (''lady_shiva'', 10), (''ra'' @ sq @ ''s_al_ghul'', 9),
        (''nightwing'', 8), (''robin'', 7), (''batgirl'', 8), (''catwoman'', 7), (''bane'', 8),
        (''joker'', 5), (''two-face'', 6), (''penguin'', 3), (''riddler'', 4)])]"

definition character_aliases_table :: "(string \<times> string) list" where
  "character_aliases_table =
     [(''dark knight'', ''batman''), (''caped crusader'', ''batman''),
      (''world'' @ sq @ ''s greatest detective'', ''batman''), (''bruce wayne'', ''batman''),
      (''clown prince of crime'', ''joker''), (''mr j'', ''joker''),
      (''harvey dent'', ''two-face''), (''dick grayson'', ''nightwing''),
      (''tim drake'', ''robin''), (''jason todd'', ''robin''), (''damian wayne'', ''robin''),
      (''selina kyle'', ''catwoman''), (''oswald cobblepot'', ''penguin''),
      (''edward nygma'', ''riddler''), (''jonathan crane'', ''scarecrow'')]"

definition normalize_character_name :: "string \<Rightarrow> string" where
  "normalize_character_name nm =
     (let name_lower = replace ''-'' '' '' (replace ''_'' '' '' (lower nm))
      in case map_of character_aliases_table name_lower of
           Some a \<Rightarrow> a
         | None \<Rightarrow> replace '' '' ''_'' name_lower)"

definition vehicle_aliases_table :: "(string \<times> string) list" where
  "vehicle_aliases_table =
     [(''batcar'', ''batmobile''), (''batplane'', ''batwing''), (''batship'', ''batboat''),
      (''batsubmarine'', ''batsub''), (''batmotorcycle'', ''batcycle'')]"

definition normalize_vehicle_name :: "string \<Rightarrow> string" where
  "normalize_vehicle_name nm =
     (let name_lower = replace '' '' [] (replace ''-'' [] (replace ''_'' [] (lower nm)))
      in case map_of vehicle_aliases_table name_lower of Some a \<Rightarrow> a | None \<Rightarrow> name_lower)"

definition estimate_character_score :: "string \<Rightarrow> int" where
  "estimate_character_score nm =
     (let name_lower = lower nm
      in if any_in [''batman'', ''robin'', ''nightwing'', ''batgirl''] name_lower then 7
         else if any_in [''joker'', ''penguin'', ''riddler''] name_lower then 4
         else if any_in [''bane'', ''killer'', ''croc'', ''clay''] name_lower then 8
         else 5)"

definition get_character_score :: "string \<Rightarrow> (string \<times> int) list \<Rightarrow> string \<Rightarrow> int" where
  "get_character_score name_key rankings original_name =
     (case map_of rankings name_key of
        Some s \<Rightarrow> s
      | None \<Rightarrow>
          (case find (\<lambda>r. contains (fst r) name_key \<or> contains name_key (fst r)) rankings of
             Some r \<Rightarrow> snd r
           | None \<Rightarrow> estimate_character_score original_name))"

text \<open>
  \<open>enhanced_character_comparison\<close>. The comparison type indexes the engine's own pattern
  table; a type that is not a key of it raises \<open>KeyError\<close>.
\<close>

definition enhanced_character_comparison :: "string \<Rightarrow> string \<Rightarrow> string \<Rightarrow> error + comparison" where
  "enhanced_character_comparison char1_name char2_name comparison_type =
     (case map_of comparison_logic comparison_type of
        None \<Rightarrow> Inl KeyError
      | Some logic \<Rightarrow>
          (let name1_key = normalize_character_name char1_name;
               name2_key = normalize_character_name char2_name;
               ranking_type = replace ''_comparison'' [] (replace ''_ranking'' [] logic);
               rankings = (case map_of character_rankings ranking_type of
                             Some r \<Rightarrow> r | None \<Rightarrow> []);
               score1 = get_character_score name1_key rankings char1_name;
               score2 = get_character_score name2_key rankings char2_name
           in Inr (if score1 > score2 then \<lparr>winner = Some char1_name, cmp_confidence = 0.8\<rparr>
                   else if score2 > score1 then \<lparr>winner = Some char2_name, cmp_confidence = 0.8\<rparr>
                   else \<lparr>winner = None, cmp_confidence = 0.6\<rparr>)))"

definition fallback_vehicle_specs :: "(string \<times> vehicle_specs) list" where
  "fallback_vehicle_specs =
     [(''batmobile'', \<lparr>max_speed = Some ''200 mph'', armor_rating = Some 9,
                       weapons_count = Some 8, defense_count = None\<rparr>),
      (''batwing'', \<lparr>max_speed = Some ''400 mph'', armor_rating = Some 6,
                     weapons_count = Some 10, defense_count = None\<rparr>),
      (''batboat'', \<lparr>max_speed = Some ''80 mph'', armor_rating = Some 7,
                     weapons_count = Some 6, defense_count = None\<rparr>),
      (''batcycle'', \<lparr>max_speed = Some ''180 mph'', armor_rating = Some 4,
                      weapons_count = Some 3, defense_count = None\<rparr>),
      (''bat-sub'', \<lparr>max_speed = Some ''60 mph'', armor_rating = Some 8,
                     weapons_count = Some 7, defense_count = None\<rparr>)]"

definition estimate_vehicle_specs :: "string \<Rightarrow> vehicle_specs" where
  "estimate_vehicle_specs nm =
     (let name_lower = lower nm
      in if contains ''mobile'' name_lower \<or> contains ''car'' name_lower then
           \<lparr>max_speed = Some ''150 mph'', armor_rating = Some 6, weapons_count = Some 5,
            defense_count = None\<rparr>
         else if contains ''wing'' name_lower \<or> contains ''plane'' name_lower then
           \<lparr>max_speed = Some ''300 mph'', armor_rating = Some 5, weapons_count = Some 7,
            defense_count = None\<rparr>
         else if contains ''boat'' name_lower \<or> contains ''ship'' name_lower then
           \<lparr>max_speed = Some ''70 mph'', armor_rating = Some 6, weapons_count = Some 4,
            defense_count = None\<rparr>
         else if contains ''cycle'' name_lower \<or> contains ''bike'' name_lower then
           \<lparr>max_speed = Some ''120 mph'', armor_rating = Some 3, weapons_count = Some 2,
            defense_count = None\<rparr>
         else
           \<lparr>max_speed = Some ''100 mph'', armor_rating = Some 4, weapons_count = Some 3,
            defense_count = None\<rparr>)"

text \<open>
  The specification query of the engine: the first vehicle whose lowered name is like the
  pattern, left-joined with its specification row, its weapons and its defensive systems.
  The two counts are taken over the joined rows, so each is multiplied by the number of
  rows of the other relation. A failing query falls through to the fallback table like a
  query without rows.
\<close>

definition select_vehicle_specs :: "database \<Rightarrow> string \<Rightarrow> (string \<times> string \<times> nat \<times> nat) option" where
  "select_vehicle_specs db pat =
     (case find (\<lambda>v. sql_like pat (lower (e_name v))) (vehicles db) of
        None \<Rightarrow> None
      | Some v \<Rightarrow>
          (let spec = find (\<lambda>r. vs_vehicle_id r = e_id v) (vehicle_specifications db);
               nw = length (filter (\<lambda>w. fst w = e_id v) (vehicle_weapons db));
               nd = length (filter (\<lambda>d. fst d = e_id v) (vehicle_defensive_systems db))
           in Some (case spec of Some r \<Rightarrow> vs_max_speed r | None \<Rightarrow> [],
                    case spec of Some r \<Rightarrow> vs_armor r | None \<Rightarrow> [],
                    nw * max nd 1, nd * max nw 1)))"

definition get_vehicle_specs :: "database \<Rightarrow> string \<Rightarrow> string \<Rightarrow> vehicle_specs" where
  "get_vehicle_specs db original_name normalized_name =
     (case select_vehicle_specs db (''%'' @ normalized_name @ ''%'') of
        Some (speed, armor, nw, nd) \<Rightarrow>
          \<lparr>max_speed = Some (if speed = [] then ''Unknown'' else speed),
           armor_rating = Some (if armor = [] then 3 else 5),
           weapons_count = Some (int nw),
           defense_count = Some (int nd)\<rparr>
      | None \<Rightarrow>
          (case map_of fallback_vehicle_specs normalized_name of
             Some specs \<Rightarrow> specs
           | None \<Rightarrow> estimate_vehicle_specs original_name))"

definition get_or :: "'a option \<Rightarrow> 'a \<Rightarrow> 'a" where
  "get_or v d = (case v of Some x \<Rightarrow> x | None \<Rightarrow> d)"

definition compare_vehicle_armor ::
  "string \<Rightarrow> string \<Rightarrow> vehicle_specs \<Rightarrow> vehicle_specs \<Rightarrow> comparison" where
  "compare_vehicle_armor name1 name2 specs1 specs2 =
     (let total1 = get_or (armor_rating specs1) 3 + get_or (defense_count specs1) 0;
          total2 = get_or (armor_rating specs2) 3 + get_or (defense_count specs2) 0
      in \<lparr>winner = (if total1 > total2 then Some name1
                    else if total2 > total1 then Some name2 else None),
          cmp_confidence = 0.7\<rparr>)"

definition compare_vehicle_weapons ::
  "string \<Rightarrow> string \<Rightarrow> vehicle_specs \<Rightarrow> vehicle_specs \<Rightarrow> comparison" where
  "compare_vehicle_weapons name1 name2 specs1 specs2 =
     (let weapons1 = get_or (weapons_count specs1) 0;
          weapons2 = get_or (weapons_count specs2) 0
      in \<lparr>winner = (if weapons1 > weapons2 then Some name1
                    else if weapons2 > weapons1 then Some name2 else None),
          cmp_confidence = 0.7\<rparr>)"

definition compare_vehicle_overall ::
  "string \<Rightarrow> string \<Rightarrow> vehicle_specs \<Rightarrow> vehicle_specs \<Rightarrow> comparison" where
  "compare_vehicle_overall name1 name2 specs1 specs2 =
     (let speed1 = extract_speed_number (get_or (max_speed specs1) ''0'');
          speed2 = extract_speed_number (get_or (max_speed specs2) ''0'');
          score1 = speed1 / 100 + real_of_int (get_or (armor_rating specs1) 3)
                     + real_of_int (get_or (weapons_count specs1) 0);
          score2 = speed2 / 100 + real_of_int (get_or (armor_rating specs2) 3)
                     + real_of_int (get_or (weapons_count specs2) 0)
      in \<lparr>winner = (if score1 > score2 then Some name1
                    else if score2 > score1 then Some name2 else None),
          cmp_confidence = 0.6\<rparr>)"

definition enhanced_vehicle_comparison ::
  "database \<Rightarrow> string \<Rightarrow> string \<Rightarrow> string \<Rightarrow> comparison" where
  "enhanced_vehicle_comparison db vehicle1_name vehicle2_name comparison_type =
     (let specs1 = get_vehicle_specs db vehicle1_name (normalize_vehicle_name vehicle1_name);
          specs2 = get_vehicle_specs db vehicle2_name (normalize_vehicle_name vehicle2_name)
      in if comparison_type = ''speed'' then
           fst (compare_vehicle_speed vehicle1_name vehicle2_name specs1 specs2)
         else if comparison_type = ''armor'' then
           compare_vehicle_armor vehicle1_name vehicle2_name specs1 specs2
         else if comparison_type = ''weapons'' then
           compare_vehicle_weapons vehicle1_name vehicle2_name specs1 specs2
         else compare_vehicle_overall vehicle1_name vehicle2_name specs1 specs2)"

section \<open>Intelligent search engine\<close>

datatype search_kind = Exact | Full_text | Fuzzy_name | By_description | By_relationship | Inference

record search_result =
  sr_entity_id :: string
  sr_entity_type :: kind
  sr_name :: string
  sr_description :: string
  sr_confidence :: real
  sr_match_type :: search_kind

definition search_result_of :: "entity \<Rightarrow> kind \<Rightarrow> real \<Rightarrow> search_kind \<Rightarrow> search_result" where
  "search_result_of r k conf mt =
     \<lparr>sr_entity_id = e_id r, sr_entity_type = k, sr_name = e_name r,
      sr_description = e_description r, sr_confidence = conf, sr_match_type = mt\<rparr>"

definition exact_name_search :: "database \<Rightarrow> string \<Rightarrow> search_result option" where
  "exact_name_search db query =
     (let clean_query = title (replace '' '' ''_'' query)
      in first_some (\<lambda>k.
           case select_name_eq (table db k) clean_query of
             Some r \<Rightarrow> Some (search_result_of r k 1 Exact)
           | None \<Rightarrow>
               (case find (\<lambda>r. e_name r = title query \<or> e_name r = upper query) (table db k) of
                  Some r \<Rightarrow> Some (search_result_of r k 1 Exact)
                | None \<Rightarrow> None))
         all_kinds)"

definition full_text_step ::
  "libs \<Rightarrow> string \<Rightarrow> kind \<Rightarrow> search_result option \<times> real \<Rightarrow> search_result option \<times> real" where
  "full_text_step L query k best =
     (case fts_match L k query of
        None \<Rightarrow> best
      | Some (r, rank) \<Rightarrow>
          (let conf = max 0.5 (1 - rank / 10)
           in if conf > snd best then (Some (search_result_of r k conf Full_text), conf)
              else best))"

definition full_text_search :: "libs \<Rightarrow> string \<Rightarrow> search_result option" where
  "full_text_search L query = fst (fold (full_text_step L query) all_kinds (None, 0))"

definition search_importance_bonus :: "string \<Rightarrow> kind \<Rightarrow> real" where
  "search_importance_bonus entity_name tbl = calculate_importance_bonus entity_name tbl"

definition fuzzy_score :: "libs \<Rightarrow> string \<Rightarrow> entity \<Rightarrow> real" where
  "fuzzy_score L query r =
     (let name_clean = lower (replace ''_'' '' '' (e_name r));
          ratio_score = real (ratio L (lower query) name_clean) / 100;
          partial_score = real (partial_ratio L (lower query) name_clean) / 100;
          token_sort_score = real (token_sort_ratio L (lower query) name_clean) / 100
      in max (max ratio_score partial_score) token_sort_score)"

text \<open>The candidates of the fuzzy name search, each with its final score.\<close>

definition fuzzy_candidates :: "libs \<Rightarrow> database \<Rightarrow> string \<Rightarrow> (search_result \<times> real) list" where
  "fuzzy_candidates L db query =
     concat (map (\<lambda>k.
       concat (map (\<lambda>r.
         if fuzzy_score L query r > 0.5 then
           [(search_result_of r k (fuzzy_score L query r) Fuzzy_name,
             fuzzy_score L query r + search_importance_bonus (e_name r) k)]
         else []) (table db k))) all_kinds)"

definition fuzzy_name_search :: "libs \<Rightarrow> database \<Rightarrow> string \<Rightarrow> search_result option" where
  "fuzzy_name_search L db query =
     (case fuzzy_candidates L db query of
        [] \<Rightarrow> None
      | c # cs \<Rightarrow> Some (fst (first_max snd c cs)))"

text \<open>
  The description search: in the first table with a row whose description is like the
  query, the row with the shortest description (the first of them in storage order).
\<close>

definition description_search :: "database \<Rightarrow> string \<Rightarrow> search_result option" where
  "description_search db query =
     first_some (\<lambda>k.
       case filter (\<lambda>r. sql_like (''%'' @ query @ ''%'') (e_description r)) (table db k) of
         [] \<Rightarrow> None
       | r # rs \<Rightarrow>
           Some (search_result_of (first_max (\<lambda>x. - int (length (e_description x))) r rs)
                   k 0.6 By_description))
     all_kinds"

text \<open>\<open>a or b\<close> on optional results.\<close>

definition or_else :: "'a option \<Rightarrow> 'a option \<Rightarrow> 'a option" where
  "or_else a b = (case a of Some x \<Rightarrow> Some x | None \<Rightarrow> b)"

definition search_single_entity :: "libs \<Rightarrow> database \<Rightarrow> string \<Rightarrow> search_result option" where
  "search_single_entity L db query =
     (let result = exact_name_search db query;
          fts_result = full_text_search L query;
          fuzzy_result = fuzzy_name_search L db query;
          desc_result = description_search db query
      in if (case result of Some r \<Rightarrow> sr_confidence r > 0.9 | None \<Rightarrow> False) then result
         else if (case fts_result of Some r \<Rightarrow> sr_confidence r > 0.8 | None \<Rightarrow> False)
           then fts_result
         else if (case fuzzy_result of Some r \<Rightarrow> sr_confidence r > 0.7 | None \<Rightarrow> False)
           then fuzzy_result
         else if desc_result \<noteq> None then desc_result
         else or_else result (or_else fts_result (or_else fuzzy_result desc_result)))"

definition comparison_patterns :: "string list" where
  "comparison_patterns =
     [''compare (.+?) (?:to|with|and) (.+?)'' @ qend,
      ''(.+?) (?:vs|versus) (.+?)'' @ qend,
      ''difference between (.+?) and (.+?)'' @ qend,
      ''(.+?) or (.+?)'' @ qend]"

text \<open>
  \<open>search_multi_entity\<close>: the two entities of a comparison, or nothing for the result of
  type \<open>single\<close>. A pattern that matches without both entities being found passes on to
  the next pattern.
\<close>

definition search_multi_entity ::
  "libs \<Rightarrow> database \<Rightarrow> string \<Rightarrow> (search_result \<times> search_result) option" where
  "search_multi_entity L db query =
     first_some (\<lambda>pattern.
       case re_search L False pattern (lower query) of
         None \<Rightarrow> None
       | Some gs \<Rightarrow>
           (case search_single_entity L db (strip (group 1 gs)) of
              None \<Rightarrow> None
            | Some entity1 \<Rightarrow>
                (case search_single_entity L db (strip (group 2 gs)) of
                   None \<Rightarrow> None
                 | Some entity2 \<Rightarrow> Some (entity1, entity2))))
     comparison_patterns"

text \<open>The locations joined to a character through \<open>character_locations\<close>.\<close>

definition locations_of :: "database \<Rightarrow> string \<Rightarrow> entity list" where
  "locations_of db character_id =
     concat (map (\<lambda>cl. filter (\<lambda>l. e_id l = fst (snd cl)) (locations db))
                 (filter (\<lambda>cl. fst cl = character_id) (character_locations db)))"

definition location_inferences :: "(string \<times> string list) list" where
  "location_inferences =
     [(''penguin'', [''iceberg_lounge'', ''arctic_world'', ''old_zoo'']),
      (''joker'', [''ace_chemical'', ''amusement_mile'']),
      (''batman'', [''batcave'', ''wayne_manor'']),
      (''catwoman'', [''museum'', ''rooftop''])]"

definition find_entity_location :: "libs \<Rightarrow> database \<Rightarrow> string \<Rightarrow> search_result option" where
  "find_entity_location L db entity_name =
     (case search_single_entity L db entity_name of
        None \<Rightarrow> None
      | Some entity \<Rightarrow>
          (case locations_of db (sr_entity_id entity) of
             location # rest \<Rightarrow> Some (search_result_of location Locations 0.9 By_relationship)
           | [] \<Rightarrow>
               (case (if sr_entity_type entity = Vehicles \<and> contains ''bat'' (lower (sr_name entity))
                      then find (\<lambda>l. sql_like ''%Batcave%'' (e_name l)
                                        \<or> sql_like ''%Bat%Cave%'' (e_name l)) (locations db)
                      else None) of
                  Some batcave \<Rightarrow> Some (search_result_of batcave Locations 0.8 Inference)
                | None \<Rightarrow>
                    (if sr_entity_type entity = Characters then
                       (case first_some (\<lambda>inf.
                               if contains (fst inf) (replace ''_'' '' '' (lower (sr_name entity)))
                               then first_some (\<lambda>loc_name.
                                      select_name_like (locations db) (''%'' @ loc_name @ ''%''))
                                    (snd inf)
                               else None) location_inferences of
                          Some location \<Rightarrow> Some (search_result_of location Locations 0.8 Inference)
                        | None \<Rightarrow> None)
                     else None))))"

text \<open>The characters joined to a vehicle through \<open>vehicle_users\<close>.\<close>

definition users_of :: "database \<Rightarrow> string \<Rightarrow> entity list" where
  "users_of db vehicle_id =
     concat (map (\<lambda>vu. filter (\<lambda>c. e_id c = snd vu) (characters db))
                 (filter (\<lambda>vu. fst vu = vehicle_id) (vehicle_users db)))"

definition find_entity_users :: "libs \<Rightarrow> database \<Rightarrow> string \<Rightarrow> search_result option" where
  "find_entity_users L db entity_name =
     (case search_single_entity L db entity_name of
        None \<Rightarrow> None
      | Some entity \<Rightarrow>
          (if sr_entity_type entity = Vehicles then
             (case users_of db (sr_entity_id entity) of
                user # rest \<Rightarrow> Some (search_result_of user Characters 0.9 By_relationship)
              | [] \<Rightarrow>
                  (if contains ''bat'' (lower (sr_name entity)) then
                     (case select_name_like (characters db) ''%Batman%'' of
                        Some batman \<Rightarrow> Some (search_result_of batman Characters 0.8 Inference)
                      | None \<Rightarrow> None)
                   else None))
           else None))"

definition search_location_patterns :: "string list" where
  "search_location_patterns =
     [''where (?:does|do|is) (.+?) (?:park|live|stay|located|based|reside)'' @ qend,
      ''(?:where|location) (?:of|for) (.+?)'' @ qend,
      ''(.+?) (?:location|base|home|residence)'' @ qend,
      ''where (?:does|do) (.+?) (?:hang out|hide|operate)'' @ qend]"

definition usage_patterns :: "string list" where
  "usage_patterns =
     [''who (?:uses|drives|operates|pilots) (.+?)'' @ qend,
      ''(.+?) (?:user|driver|pilot|operator)'' @ qend]"

definition search_by_relationship :: "libs \<Rightarrow> database \<Rightarrow> string \<Rightarrow> search_result option" where
  "search_by_relationship L db query =
     (case first_match L search_location_patterns (lower query) of
        Some gs \<Rightarrow> find_entity_location L db (strip (group 1 gs))
      | None \<Rightarrow>
          (case first_match L usage_patterns (lower query) of
             Some gs \<Rightarrow> find_entity_users L db (strip (group 1 gs))
           | None \<Rightarrow> None))"

section \<open>Relationship processor\<close>

text \<open>
  The result of the relationship processor: its query type, the id of the primary entity
  and the confidence.
\<close>

record relationship_result =
  rr_query_type :: string
  rr_primary_id :: string
  rr_confidence :: real

definition find_entity :: "database \<Rightarrow> string \<Rightarrow> (entity \<times> kind) option" where
  "find_entity db entity_name =
     (let clean_name = title (replace '' '' ''_'' (strip entity_name))
      in first_some (\<lambda>k.
           case select_name_eq (table db k) clean_name of
             Some r \<Rightarrow> Some (r, k)
           | None \<Rightarrow>
               (case select_name_like (table db k) (''%'' @ clean_name @ ''%'') of
                  Some r \<Rightarrow> Some (r, k)
                | None \<Rightarrow> None))
         [Characters, Vehicles, Locations, Organizations, Storylines])"

definition weapon_keywords :: "string list" where
  "weapon_keywords = [''gun'', ''pistol'', ''rifle'', ''sword'', ''knife'', ''weapon'', ''armed'',
                      ''carries'']"

definition process_weapons_query :: "database \<Rightarrow> string \<Rightarrow> relationship_result option" where
  "process_weapons_query db entity_name =
     (case find_entity db entity_name of
        None \<Rightarrow> None
      | Some (entity, k) \<Rightarrow>
          (if k = Vehicles then
             (if filter (\<lambda>w. fst w = e_id entity) (vehicle_weapons db) \<noteq> [] then
                Some \<lparr>rr_query_type = ''weapons'', rr_primary_id = e_id entity, rr_confidence = 1\<rparr>
              else
                Some \<lparr>rr_query_type = ''weapons'', rr_primary_id = e_id entity,
                      rr_confidence = 0.6\<rparr>)
           else if k = Characters then
             (if filter (\<lambda>kw. contains kw (lower (e_description entity))) weapon_keywords \<noteq> [] then
                Some \<lparr>rr_query_type = ''character_weapons'', rr_primary_id = e_id entity,
                      rr_confidence = 0.7\<rparr>
              else None)
           else None))"

definition process_defense_query :: "database \<Rightarrow> string \<Rightarrow> relationship_result option" where
  "process_defense_query db entity_name =
     (case find_entity db entity_name of
        None \<Rightarrow> None
      | Some (entity, k) \<Rightarrow>
          (if k = Vehicles then
             (if filter (\<lambda>d. fst d = e_id entity) (vehicle_defensive_systems db) \<noteq> [] then
                Some \<lparr>rr_query_type = ''defenses'', rr_primary_id = e_id entity, rr_confidence = 1\<rparr>
              else
                Some \<lparr>rr_query_type = ''defenses'', rr_primary_id = e_id entity,
                      rr_confidence = 0.6\<rparr>)
           else if k = Locations then
             Some \<lparr>rr_query_type = ''defenses'', rr_primary_id = e_id entity, rr_confidence = 0.5\<rparr>
           else None))"

definition process_features_query :: "database \<Rightarrow> string \<Rightarrow> relationship_result option" where
  "process_features_query db entity_name =
     (case find_entity db entity_name of
        None \<Rightarrow> None
      | Some (entity, k) \<Rightarrow>
          (if k = Vehicles then
             (if filter (\<lambda>f. fst f = e_id entity) (vehicle_special_features db) \<noteq> [] then
                Some \<lparr>rr_query_type = ''features'', rr_primary_id = e_id entity, rr_confidence = 1\<rparr>
              else
                Some \<lparr>rr_query_type = ''features'', rr_primary_id = e_id entity,
                      rr_confidence = 0.6\<rparr>)
           else if k = Locations then
             Some \<lparr>rr_query_type = ''features'', rr_primary_id = e_id entity, rr_confidence = 0.5\<rparr>
           else None))"

definition process_location_query :: "database \<Rightarrow> string \<Rightarrow> relationship_result option" where
  "process_location_query db entity_name =
     (case find_entity db entity_name of
        None \<Rightarrow> None
      | Some (entity, k) \<Rightarrow>
          (if k = Characters \<and> locations_of db (e_id entity) \<noteq> [] then
             Some \<lparr>rr_query_type = ''character_locations'', rr_primary_id = e_id entity,
                   rr_confidence = 1\<rparr>
           else None))"

definition process_specifications_query :: "database \<Rightarrow> string \<Rightarrow> relationship_result option" where
  "process_specifications_query db entity_name =
     (case find_entity db entity_name of
        None \<Rightarrow> None
      | Some (entity, k) \<Rightarrow>
          (if k \<noteq> Vehicles then None
           else case find (\<lambda>r. vs_vehicle_id r = e_id entity) (vehicle_specifications db) of
                  None \<Rightarrow> None
                | Some specs \<Rightarrow>
                    (if filter (\<lambda>v. v \<noteq> [] \<and> strip v \<noteq> [])
                          (vs_max_speed specs # vs_armor specs # vs_other specs) \<noteq> [] then
                       Some \<lparr>rr_query_type = ''specifications'', rr_primary_id = e_id entity,
                             rr_confidence = 1\<rparr>
                     else None)))"

definition weapons_patterns :: "string list" where
  "weapons_patterns =
     [''what weapons does (?:the )?(.+?) have'',
      ''what guns does (?:the )?(.+?) have'',
      ''what arms does (?:the )?(.+?) have'',
      ''what weapons are on (?:the )?(.+)'',
      ''what weapons are (?:in|inside|aboard) (?:the )?(.+)'',
      ''what are (?:the )?(.+?) weapons'',
      ''what is (?:the )?(.+?) armed with'',
      ''does (?:the )?(.+?) have weapons'',
      ''weapons of (?:the )?(.+)'',
      ''weapons on (?:the )?(.+)'',
      ''the (.+?) weapons'',
      ''(.+?) weapons'']"

definition defense_patterns :: "string list" where
  "defense_patterns =
     [''what (?:defenses|defense|armor|protection) does (?:the )?(.+?) have'',
      ''what (?:defensive systems|defenses) does (?:the )?(.+?) have'',
      ''what (?:defenses|defense|armor|protection) are on (?:the )?(.+)'',
      ''what (?:defenses|defense|armor|protection) are (?:in|inside) (?:the )?(.+)'',
      ''(.+?) (?:defenses|defense|armor|protection)'',
      ''(?:defenses|defense|armor|protection) of (?:the )?(.+)'',
      ''(?:defenses|defense|armor|protection) on (?:the )?(.+)'',
      ''how is (?:the )?(.+?) (?:protected|defended|armored)'',
      ''does (?:the )?(.+?) have (?:defenses|armor|protection)'']"

definition features_patterns :: "string list" where
  "features_patterns =
     [''what (?:features|abilities|systems|capabilities) does (?:the )?(.+?) have'',
      ''what (?:special features|features) does (?:the )?(.+?) have'',
      ''what (?:features|abilities|systems|capabilities) are on (?:the )?(.+)'',
      ''what (?:features|abilities|systems|capabilities) are (?:in|inside) (?:the )?(.+)'',
      ''(.+?) (?:features|abilities|systems|capabilities)'',
      ''(?:features|abilities|systems) of (?:the )?(.+)'',
      ''(?:features|abilities|systems) on (?:the )?(.+)'',
      ''what can (?:the )?(.+?) do'',
      ''does (?:the )?(.+?) have (?:features|abilities|systems)'']"

definition spec_patterns :: "string list" where
  "spec_patterns =
     [''(?:specs|specifications|details) (?:of|for) (.+?)'',
      ''(.+?) (?:specs|specifications|technical details)'',
      ''what (?:are|is) (.+?) (?:specs|specifications)'']"

definition location_patterns :: "string list" where
  "location_patterns =
     [''where (?:does|do|is|are) (.+?) (?:live|stay|operate|hang out|work)'',
      ''(?:location|locations) (?:of|for) (.+?)'',
      ''(.+?) (?:location|base|hideout|lair)'']"

text \<open>
  \<open>process_relationship_query\<close>: the first family with a matching pattern decides, also
  when its query then yields nothing.
\<close>

definition process_relationship_query ::
  "libs \<Rightarrow> database \<Rightarrow> string \<Rightarrow> relationship_result option" where
  "process_relationship_query L db query =
     (case first_match L weapons_patterns (lower query) of
        Some gs \<Rightarrow> process_weapons_query db (strip (group 1 gs))
      | None \<Rightarrow>
     (case first_match L defense_patterns (lower query) of
        Some gs \<Rightarrow> process_defense_query db (strip (group 1 gs))
      | None \<Rightarrow>
     (case first_match L features_patterns (lower query) of
        Some gs \<Rightarrow> process_features_query db (strip (group 1 gs))
      | None \<Rightarrow>
     (case first_match L spec_patterns (lower query) of
        Some gs \<Rightarrow> process_specifications_query db (strip (group 1 gs))
      | None \<Rightarrow>
     (case first_match L location_patterns (lower query) of
        Some gs \<Rightarrow> process_location_query db (strip (group 1 gs))
      | None \<Rightarrow> None)))))"

section \<open>Conversation intelligence\<close>

definition comparison_keywords :: "(string \<times> string list) list" where
  "comparison_keywords =
     [(''speed'', [''faster'', ''speed'', ''quick'', ''swift'']),
      (''strength'', [''stronger'', ''strength'', ''power'', ''tough'']),
      (''intelligence'', [''smarter'', ''intelligent'', ''clever'', ''genius'']),
      (''size'', [''bigger'', ''larger'', ''size'', ''massive'']),
      (''armor'', [''armored'', ''protected'', ''defensive'', ''armor''])]"

definition vs_patterns :: "string list" where
  "vs_patterns =
     [''(.+?)'' @ ws @ ''+(?:vs|versus|against)'' @ ws @ ''+(.+?)'' @ qend,
      ''who.*(?:faster|stronger|smarter|bigger).*?:'' @ ws @ ''*(.+?)'' @ ws @ ''+or'' @ ws
        @ ''+(.+?)'' @ qend,
      ''(?:faster|stronger|smarter|bigger).*?:'' @ ws @ ''*(.+?)'' @ ws @ ''+(?:vs|versus|or)''
        @ ws @ ''+(.+?)'' @ qend]"

definition parse_comparison_query :: "libs \<Rightarrow> string \<Rightarrow> (string \<times> string \<times> string) option" where
  "parse_comparison_query L query =
     (let query_lower = lower query
      in case find (\<lambda>p. any_in (snd p) query_lower) comparison_keywords of
           None \<Rightarrow> None
         | Some p \<Rightarrow>
             (case first_match L vs_patterns query_lower of
                Some gs \<Rightarrow> Some (fst p, strip (group 1 gs), strip (group 2 gs))
              | None \<Rightarrow> None))"

definition strength_rankings :: "(string \<times> int) list" where
  "strength_rankings =
     [(''batman'', 7), (''superman'', 10), (''bane'', 9), (''joker'', 3), (''nightwing'', 6),
      (''robin'', 5), (''catwoman'', 5), (''two-face'', 4)]"

definition intelligence_rankings :: "(string \<times> int) list" where
  "intelligence_rankings =
     [(''batman'', 10), (''lex luthor'', 9), (''riddler'', 8), (''joker'', 7), (''nightwing'', 7),
      (''robin'', 6), (''catwoman'', 6), (''two-face'', 5)]"

text \<open>The score of a name in a ranking: 5, replaced by each ranked name it contains in turn.\<close>

definition ranked_score :: "(string \<times> int) list \<Rightarrow> string \<Rightarrow> int" where
  "ranked_score rankings name_lower =
     fold (\<lambda>r score. if contains (fst r) name_lower then snd r else score) rankings 5"

definition determine_winner :: "(string \<times> int) list \<Rightarrow> entity \<Rightarrow> entity \<Rightarrow> string option" where
  "determine_winner rankings char1 char2 =
     (let score1 = ranked_score rankings (replace ''_'' '' '' (lower (e_name char1)));
          score2 = ranked_score rankings (replace ''_'' '' '' (lower (e_name char2)))
      in if score1 > score2 then Some (e_name char1)
         else if score2 > score1 then Some (e_name char2)
         else None)"

text \<open>\<open>SELECT max_speed FROM vehicle_specifications WHERE vehicle_id = ?\<close>, when not empty.\<close>

definition extract_speed_from_vehicle :: "database \<Rightarrow> string \<Rightarrow> string option" where
  "extract_speed_from_vehicle db vehicle_id =
     (case find (\<lambda>r. vs_vehicle_id r = vehicle_id) (vehicle_specifications db) of
        Some r \<Rightarrow> (if vs_max_speed r \<noteq> [] then Some (vs_max_speed r) else None)
      | None \<Rightarrow> None)"

definition defensive_count :: "database \<Rightarrow> string \<Rightarrow> nat" where
  "defensive_count db vehicle_id =
     length (filter (\<lambda>d. fst d = vehicle_id) (vehicle_defensive_systems db))"

text \<open>
  The winner of \<open>_compare_entities_fallback\<close>. In the speed branch a text without digits
  makes the conversion fail, which the source catches, leaving no winner.
\<close>

definition fallback_winner ::
  "database \<Rightarrow> entity \<Rightarrow> entity \<Rightarrow> kind \<Rightarrow> kind \<Rightarrow> string \<Rightarrow> string option" where
  "fallback_winner db entity1 entity2 type1 type2 comparison_type =
     (if comparison_type = ''speed'' \<and> type1 = Vehicles \<and> type2 = Vehicles then
        (case (extract_speed_from_vehicle db (e_id entity1),
               extract_speed_from_vehicle db (e_id entity2)) of
           (Some speed1, Some speed2) \<Rightarrow>
             (case (search_digits speed1, search_digits speed2) of
                (Some d1, Some d2) \<Rightarrow>
                  (if nat_of_digits d1 > nat_of_digits d2 then Some (e_name entity1)
                   else if nat_of_digits d2 > nat_of_digits d1 then Some (e_name entity2)
                   else None)
              | _ \<Rightarrow> None)
         | _ \<Rightarrow> None)
      else if comparison_type = ''strength'' \<and> type1 = Characters \<and> type2 = Characters then
        determine_winner strength_rankings entity1 entity2
      else if comparison_type = ''intelligence'' \<and> type1 = Characters \<and> type2 = Characters then
        determine_winner intelligence_rankings entity1 entity2
      else if comparison_type = ''armor'' \<and> type1 = Vehicles \<and> type2 = Vehicles then
        (if defensive_count db (e_id entity1) > defensive_count db (e_id entity2)
           then Some (e_name entity1)
         else if defensive_count db (e_id entity2) > defensive_count db (e_id entity1)
           then Some (e_name entity2)
         else None)
      else None)"

definition compare_entities_fallback ::
  "database \<Rightarrow> entity \<Rightarrow> entity \<Rightarrow> kind \<Rightarrow> kind \<Rightarrow> string \<Rightarrow> error + comparison" where
  "compare_entities_fallback db entity1 entity2 type1 type2 comparison_type =
     (case map_of comparison_keywords comparison_type of
        None \<Rightarrow> Inl KeyError
      | Some info \<Rightarrow>
          (let w = fallback_winner db entity1 entity2 type1 type2 comparison_type
           in Inr \<lparr>winner = w,
                   cmp_confidence = (if w \<noteq> None \<and> w \<noteq> Some [] then 0.7 else 0.5)\<rparr>))"

definition enhanced_compare_entities ::
  "database \<Rightarrow> entity \<Rightarrow> entity \<Rightarrow> kind \<Rightarrow> kind \<Rightarrow> string \<Rightarrow> error + comparison" where
  "enhanced_compare_entities db entity1 entity2 type1 type2 comparison_type =
     (if type1 = Characters \<and> type2 = Characters then
        enhanced_character_comparison (e_name entity1) (e_name entity2) comparison_type
      else if type1 = Vehicles \<and> type2 = Vehicles then
        Inr (enhanced_vehicle_comparison db (e_name entity1) (e_name entity2) comparison_type)
      else compare_entities_fallback db entity1 entity2 type1 type2 comparison_type)"

text \<open>
  A comparison result with the ids of its two entities; the relationship result of the
  conversation layer with the id of its primary entity and the related entities.
\<close>

record comparison_result =
  cr_entity1_id :: string
  cr_entity2_id :: string
  cr_confidence :: real

definition handle_comparative_query ::
  "libs \<Rightarrow> database \<Rightarrow> (kind \<Rightarrow> cache_entry list) \<Rightarrow> string \<Rightarrow> error + comparison_result option" where
  "handle_comparative_query L db cache query =
     (case parse_comparison_query L query of
        None \<Rightarrow> Inr None
      | Some (comparison_type, entity1_name, entity2_name) \<Rightarrow>
          (case (find_best_entity_match L cache entity1_name None 70,
                 find_best_entity_match L cache entity2_name None 70) of
             (Some entity1_match, Some entity2_match) \<Rightarrow>
               (case (get_entity_by_id db (em_entity_id entity1_match) (em_entity_type entity1_match),
                      get_entity_by_id db (em_entity_id entity2_match) (em_entity_type entity2_match)) of
                  (Some entity1, Some entity2) \<Rightarrow>
                    (case enhanced_compare_entities db entity1 entity2
                            (em_entity_type entity1_match) (em_entity_type entity2_match)
                            comparison_type of
                       Inl e \<Rightarrow> Inl e
                     | Inr c \<Rightarrow>
                         Inr (Some \<lparr>cr_entity1_id = e_id entity1, cr_entity2_id = e_id entity2,
                                    cr_confidence = cmp_confidence c\<rparr>))
                | _ \<Rightarrow> Inr None)
           | _ \<Rightarrow> Inr None))"

definition ci_relationship_patterns :: "string list" where
  "ci_relationship_patterns =
     [''who'' @ ws @ ''+(?:are|is)'' @ ws @ ''+(.+?)'' @ poss @ ws
        @ ''+(?:allies|enemies|family|villains|friends)'',
      ''(.+?)'' @ poss @ ws @ ''+(?:allies|enemies|family|villains|friends)'',
      ''(?:allies|enemies|family|villains|friends).*?(?:of|for)'' @ ws @ ''+(.+?)'' @ qend,
      ''what'' @ ws @ ''+(?:are|is)'' @ ws @ ''+(.+?)'' @ poss @ ws @ ''+(?:allies|enemies)'',
      ''list.*?(.+?)'' @ poss @ ws @ ''+(?:enemies|allies)'',
      ''who.*?(?:helps|fights)'' @ ws @ ''+(.+?)'' @ qend]"

definition parse_relationship_query :: "libs \<Rightarrow> string \<Rightarrow> (string \<times> string) option" where
  "parse_relationship_query L query =
     (let query_lower = lower query;
          relationship_type =
            (if any_in [''enemies'', ''villains'', ''foes'', ''rogues''] query_lower then ''enemies''
             else if any_in [''allies'', ''friends'', ''partners'', ''helpers''] query_lower
               then ''allies''
             else if any_in [''family'', ''relatives''] query_lower then ''family''
             else [])
      in if relationship_type = [] then None
         else case first_match L ci_relationship_patterns query_lower of
                Some gs \<Rightarrow> Some (strip (replace ''the '' [] (strip (group 1 gs))), relationship_type)
              | None \<Rightarrow> None)"

definition batman_relationships :: "(string \<times> string list) list" where
  "batman_relationships =
     [(''allies'', [''Robin'', ''Nightwing'', ''Batgirl'', ''Alfred_Pennyworth'',
                    ''Commissioner_Gordon'', ''Oracle'', ''Red_Robin'', ''Catwoman'']),
      (''enemies'', [''Joker'', ''Two-Face'', ''Penguin'', ''Riddler'', ''Bane'', ''Scarecrow'',
                     ''Poison_Ivy'', ''Mr_Freeze'', ''Harley_Quinn'', ''Ra'' @ sq @ ''s_al_Ghul''])]"

definition joker_relationships :: "(string \<times> string list) list" where
  "joker_relationships =
     [(''allies'', [''Harley_Quinn'', ''Penguin'']),
      (''enemies'', [''Batman'', ''Robin'', ''Nightwing'', ''Batgirl''])]"

text \<open>The ids of the related characters from the predefined tables.\<close>

definition get_predefined_relationships :: "database \<Rightarrow> string \<Rightarrow> string \<Rightarrow> string list" where
  "get_predefined_relationships db entity_id relationship_type =
     (case find (\<lambda>c. e_id c = entity_id) (characters db) of
        None \<Rightarrow> []
      | Some row \<Rightarrow>
          (let entity_name = replace ''_'' '' '' (lower (e_name row));
               target_list =
                 (if contains ''batman'' entity_name \<or> contains ''bruce wayne'' entity_name then
                    get_or (map_of batman_relationships relationship_type) []
                  else if contains ''joker'' entity_name then
                    get_or (map_of joker_relationships relationship_type) []
                  else if relationship_type = ''enemies'' then
                    (if \<not> contains ''batman'' entity_name then [''Batman''] else [])
                  else [])
           in concat (map (\<lambda>n.
                case find (\<lambda>c. sql_like (lower (''%'' @ n @ ''%'')) (lower (e_name c)))
                       (characters db) of
                  Some c \<Rightarrow> [e_id c]
                | None \<Rightarrow> []) (take 8 target_list))))"

text \<open>
  The ids of the related entities: for a character the stored relationships (at most ten),
  and the predefined ones when none is stored.
\<close>

definition find_related_entities :: "database \<Rightarrow> string \<Rightarrow> kind \<Rightarrow> string \<Rightarrow> string list" where
  "find_related_entities db entity_id entity_type relationship_type =
     (if entity_type = Characters then
        (let related =
               take 10 (concat (map (\<lambda>cr.
                  map e_id (filter (\<lambda>c. e_id c = fst (snd cr)) (characters db)))
                  (filter (\<lambda>cr. fst cr = entity_id) (character_relationships db))))
         in if related = [] then get_predefined_relationships db entity_id relationship_type
            else related)
      else [])"

record ci_relationship_result =
  cir_primary_id :: string
  cir_related_ids :: "string list"
  cir_confidence :: real

definition ci_handle_relationship_query ::
  "libs \<Rightarrow> database \<Rightarrow> (kind \<Rightarrow> cache_entry list) \<Rightarrow> string \<Rightarrow> ci_relationship_result option" where
  "ci_handle_relationship_query L db cache query =
     (case parse_relationship_query L query of
        None \<Rightarrow> None
      | Some (entity_name, relationship_type) \<Rightarrow>
          (case find_best_entity_match L cache entity_name None 70 of
             None \<Rightarrow> None
           | Some entity_match \<Rightarrow>
               (case get_entity_by_id db (em_entity_id entity_match) (em_entity_type entity_match) of
                  None \<Rightarrow> None
                | Some primary_entity \<Rightarrow>
                    (let related = find_related_entities db (em_entity_id entity_match)
                                     (em_entity_type entity_match) relationship_type
                     in if related = [] then None
                        else Some \<lparr>cir_primary_id = e_id primary_entity,
                                   cir_related_ids = related, cir_confidence = 0.8\<rparr>))))"

definition multi_character_patterns :: "string list" where
  "multi_character_patterns =
     [''(?:all|every).*?(?:of'' @ ws @ ''+|for'' @ ws @ ''+)?(.+?)'' @ poss @ ws @ ''+'',
      ''(.+?)'' @ poss @ ws @ ''+(?:all|every)'',
      ''tell.*?about.*?(.+?)'' @ poss @ ws @ ''+'']"

text \<open>
  \<open>_parse_multi_entity_query\<close>: the entity type, and the character name when the query
  is about one character (\<open>character_related\<close>), none for \<open>list_all\<close>.
\<close>

definition parse_multi_entity_query :: "libs \<Rightarrow> string \<Rightarrow> (kind \<times> string option) option" where
  "parse_multi_entity_query L query =
     (let query_lower = lower query
      in if any_in [''all'', ''list'', ''every'', ''show''] query_lower
            \<or> contains ''vehicles does batman'' query_lower
            \<or> contains ''batman vehicles'' query_lower then
           (case (if any_in [''vehicle'', ''car'', ''plane'', ''boat''] query_lower
                     \<or> contains ''vehicles does batman'' query_lower then Some Vehicles
                  else if any_in [''location'', ''place'', ''building''] query_lower
                    then Some Locations
                  else if any_in [''character'', ''people'', ''person'', ''family'', ''members'']
                            query_lower then Some Characters
                  else if any_in [''organization'', ''group'', ''team''] query_lower
                    then Some Organizations
                  else None) of
              None \<Rightarrow> None
            | Some entity_type \<Rightarrow>
                (case first_match L multi_character_patterns query_lower of
                   Some gs \<Rightarrow> Some (entity_type, Some (strip (group 1 gs)))
                 | None \<Rightarrow> Some (entity_type, None)))
         else None)"

definition get_character_related_entities :: "database \<Rightarrow> string \<Rightarrow> kind \<Rightarrow> entity list" where
  "get_character_related_entities db character_id entity_type =
     (if entity_type = Vehicles then
        concat (map (\<lambda>vu. filter (\<lambda>v. e_id v = fst vu) (vehicles db))
                    (filter (\<lambda>vu. snd vu = character_id) (vehicle_users db)))
      else if entity_type = Locations then locations_of db character_id
      else [])"

text \<open>
  \<open>handle_multi_entity_query\<close>: the ids of the listed entities (at most ten), when there
  are any.
\<close>

definition handle_multi_entity_query ::
  "libs \<Rightarrow> database \<Rightarrow> (kind \<Rightarrow> cache_entry list) \<Rightarrow> string \<Rightarrow> string list option" where
  "handle_multi_entity_query L db cache query =
     (case parse_multi_entity_query L query of
        None \<Rightarrow> None
      | Some (entity_type, None) \<Rightarrow>
          (let entities = take 20 (table db entity_type)
           in if entities = [] then None else Some (map e_id (take 10 entities)))
      | Some (entity_type, Some character_name) \<Rightarrow>
          (if character_name = [] then None
           else case find_best_entity_match L cache character_name (Some Characters) 70 of
                  None \<Rightarrow> None
                | Some character_match \<Rightarrow>
                    (let entities = get_character_related_entities db
                                      (em_entity_id character_match) entity_type
                     in if entities = [] then None else Some (map e_id (take 10 entities)))))"

section \<open>Chatbot\<close>

text \<open>
  A response without its answer text. The conversation history is the list of the earlier
  messages; a call reads it and the texts of its assistant messages are arbitrary here.
  The processors are created together with the storage connection, so that a chatbot whose
  connection is there never takes the fallback handlers for a missing query processor; they
  are not modelled.
\<close>

record response =
  confidence :: real
  source_entities :: "string list"
  query_type :: string
  suggestions :: "string list option"

datatype role = User | Assistant

type_synonym history = "(role \<times> string) list"

record chatbot =
  conn :: "database option"
  entity_cache :: "kind \<Rightarrow> cache_entry list"

definition init_chatbot :: "database option \<Rightarrow> chatbot" where
  "init_chatbot d =
     \<lparr>conn = d,
      entity_cache = (case d of Some db \<Rightarrow> build_entity_cache db | None \<Rightarrow> (\<lambda>k. []))\<rparr>"

definition non_batman_heroes :: "string list" where
  "non_batman_heroes =
     [''superman'', ''clark kent'', ''kal-el'', ''wonder woman'', ''diana prince'',
      ''green lantern'', ''hal jordan'', ''john stewart'', ''kyle rayner'', ''flash'',
      ''barry allen'', ''wally west'', ''aquaman'', ''arthur curry'', ''green arrow'',
      ''oliver queen'', ''martian manhunter'', ''j'' @ sq @ ''onn j'' @ sq @ ''onzz'', ''cyborg'',
      ''victor stone'', ''shazam'', ''billy batson'', ''hawkman'', ''carter hall'', ''atom'',
      ''ray palmer'', ''firestorm'', ''ronnie raymond'']"

definition non_batman_entities :: "string list" where
  "non_batman_entities =
     [''metropolis'', ''smallville'', ''daily planet'', ''lexcorp'', ''lex corp'', ''luthorcorp'',
      ''themyscira'', ''paradise island'', ''coast city'', ''central city'', ''keystone city'',
      ''atlantis'', ''star city'', ''mount justice'', ''watchtower'', ''fortress of solitude'',
      ''hall of justice'']"

definition batman_terms :: "string list" where
  "batman_terms = [''batman'', ''bruce wayne'', ''dark knight'', ''gotham'', ''bat-family'']"

definition scope_vehicle_patterns :: "string list" where
  "scope_vehicle_patterns = [''what does'', ''what vehicles'', ''what cars'', ''drives'', ''rides'']"

definition scope_equipment_patterns :: "string list" where
  "scope_equipment_patterns = [''gadgets'', ''weapons'', ''equipment'', ''gear'', ''tools'']"

text \<open>
  The entry \<open>is_batman_related\<close> of \<open>_check_batman_scope\<close>. The first loop returns at the
  first listed name that the query contains, when the query contains no Batman term.
\<close>

definition check_batman_scope :: "string \<Rightarrow> bool" where
  "check_batman_scope query =
     (let query_lower = lower query
      in if any_in (non_batman_heroes @ non_batman_entities) query_lower
            \<and> \<not> any_in batman_terms query_lower then False
         else if any_in (scope_vehicle_patterns @ scope_equipment_patterns) query_lower
            \<and> any_in non_batman_heroes query_lower then False
         else True)"

definition out_of_scope_response :: response where
  "out_of_scope_response =
     \<lparr>confidence = 0, source_entities = [], query_type = ''out_of_scope'', suggestions = None\<rparr>"

definition clean_input :: "string \<Rightarrow> string" where
  "clean_input user_input = strip user_input"

definition vehicle_keywords :: "string list" where
  "vehicle_keywords = [''batmobile'', ''batwing'', ''batboat'', ''batcycle'', ''vehicle'', ''car'',
                       ''plane'', ''boat'', ''drive'', ''drives'']"

definition location_keywords :: "string list" where
  "location_keywords = [''gotham'', ''arkham'', ''wayne manor'', ''batcave'', ''where is'',
                        ''location'', ''place'']"

definition relationship_keywords :: "string list" where
  "relationship_keywords = [''relationship'', ''ally'', ''enemy'', ''friend'', ''vs'', ''versus'',
                            ''against'']"

definition sidekick_keywords :: "string list" where
  "sidekick_keywords = [''sidekick'', ''partner'', ''robin'', ''assistant'', ''helper'']"

definition character_keywords :: "string list" where
  "character_keywords = [''who is'', ''tell me about'', ''what about'', ''character'', ''person'']"

definition classify_query :: "string \<Rightarrow> string" where
  "classify_query query =
     (let query_lower = lower query
      in if any_in vehicle_keywords query_lower then ''vehicle_lookup''
         else if any_in location_keywords query_lower then ''location_lookup''
         else if any_in relationship_keywords query_lower then ''relationship_query''
         else if any_in sidekick_keywords query_lower then ''sidekick_lookup''
         else if any_in character_keywords query_lower then ''character_lookup''
         else ''general_search'')"

definition followup_patterns :: "string list" where
  "followup_patterns =
     [bs @ ''*'' @ bs @ ''*([^*]+)'' @ bs @ ''*'' @ bs @ ''*'',
      ''(?:The'' @ ws @ ''+)?([A-Z][a-z]+(?:'' @ ws @ ''+[A-Z][a-z]+)*)'' @ ws
        @ ''+(?:is|was|has)'',
      ''(?:analyzing|discussing)'' @ ws @ ''+(?:the'' @ ws @ ''+)?([A-Za-z]+(?:'' @ ws
        @ ''+[A-Za-z]+)?)'']"

definition pronoun_pattern :: string where
  "pronoun_pattern = bs @ ''b(?:it|that|this)'' @ bs @ ''b''"

text \<open>\<open>xs[-n:]\<close>.\<close>

definition last_n :: "nat \<Rightarrow> 'a list \<Rightarrow> 'a list" where
  "last_n n xs = drop (length xs - n) xs"

text \<open>
  The query that \<open>_handle_contextual_followup\<close> passes on: over the last six messages,
  newest first, and the entity patterns in turn, the first rewriting of the query's
  pronouns by a mentioned entity that changes the query.
\<close>

definition resolve_followup :: "libs \<Rightarrow> history \<Rightarrow> string \<Rightarrow> string option" where
  "resolve_followup L h query =
     first_some (\<lambda>history_item.
       first_some (\<lambda>pattern.
         case re_search L True pattern (snd history_item) of
           None \<Rightarrow> None
         | Some gs \<Rightarrow>
             (let resolved_query = re_sub L True pronoun_pattern (strip (group 1 gs)) query
              in if resolved_query \<noteq> query then Some resolved_query else None))
       followup_patterns)
     (rev (last_n 6 h))"

definition clarification_response :: response where
  "clarification_response =
     \<lparr>confidence = 0, source_entities = [], query_type = ''clarification_needed'',
      suggestions = None\<rparr>"

definition handle_contextual_followup ::
  "(string \<Rightarrow> error + response) \<Rightarrow> libs \<Rightarrow> history \<Rightarrow> string \<Rightarrow> error + response" where
  "handle_contextual_followup recur L h query =
     (case resolve_followup L h query of
        Some resolved_query \<Rightarrow> recur resolved_query
      | None \<Rightarrow> Inr clarification_response)"

definition ambiguous_names :: "string list" where
  "ambiguous_names = [''robin'', ''batgirl'', ''flash'', ''green lantern'', ''joker'', ''batman'']"

definition pronouns :: "string list" where
  "pronouns = [''it'', ''that'', ''this'', ''them'', ''him'', ''her'']"

definition suggestion_response :: "string \<Rightarrow> entity_match list \<Rightarrow> response" where
  "suggestion_response qtype ms =
     \<lparr>confidence = 0.5, source_entities = [], query_type = qtype,
      suggestions = Some (map em_name (take 5 ms))\<rparr>"

definition definitive_response :: "string \<Rightarrow> entity_match \<Rightarrow> response" where
  "definitive_response qtype m =
     \<lparr>confidence = em_confidence m, source_entities = [em_entity_id m], query_type = qtype,
      suggestions = None\<rparr>"

definition not_found_response :: "string \<Rightarrow> response" where
  "not_found_response qtype =
     \<lparr>confidence = 0, source_entities = [], query_type = qtype, suggestions = None\<rparr>"

text \<open>
  The last part of \<open>_handle_character_query\<close>: the best character match behind its
  confidence gate, then the handling of ambiguous results.
\<close>

definition character_lookup :: "libs \<Rightarrow> database \<Rightarrow> (kind \<Rightarrow> cache_entry list) \<Rightarrow> string \<Rightarrow> response" where
  "character_lookup L db cache query =
     (let match = find_best_entity_match L cache query (Some Characters) 70;
          accepted =
            (case match of
               Some m \<Rightarrow>
                 (if em_confidence m > 0.6
                     \<and> get_entity_by_id db (em_entity_id m) Characters \<noteq> None
                  then Some m else None)
             | None \<Rightarrow> None)
      in case accepted of
           Some m \<Rightarrow> definitive_response ''character_lookup'' m
         | None \<Rightarrow>
             (case handle_ambiguous_query L cache query of
                Multiple_matches ms names \<Rightarrow>
                  (let char_matches = filter (\<lambda>m. em_entity_type m = Characters) ms
                   in if char_matches \<noteq> [] then suggestion_response ''character_lookup'' char_matches
                      else not_found_response ''character_lookup'')
              | _ \<Rightarrow> not_found_response ''character_lookup''))"

text \<open>
  \<open>_handle_character_query\<close>; \<open>recur\<close> is \<open>process_query\<close>, called by the contextual
  follow-up, and \<open>h\<close> the history with the current query as its last message.
\<close>

definition handle_character_query ::
  "(string \<Rightarrow> error + response) \<Rightarrow> libs \<Rightarrow> database \<Rightarrow> (kind \<Rightarrow> cache_entry list) \<Rightarrow> history
     \<Rightarrow> string \<Rightarrow> error + response" where
  "handle_character_query recur L db cache h query =
     (if \<not> check_batman_scope query then Inr out_of_scope_response
      else
        (let query_clean = strip (lower query)
         in if any_in pronouns query_clean
               \<and> list_ex (\<lambda>item. fst item = Assistant \<and> contains ''weapons'' (lower (snd item)))
                    (last_n 4 h)
            then handle_contextual_followup recur L h query
            else
              (case (if any_in ambiguous_names query_clean then
                       (case handle_ambiguous_query L cache query of
                          Multiple_matches ms names \<Rightarrow>
                            (let char_matches = filter (\<lambda>m. em_entity_type m = Characters) ms
                             in if length char_matches > 1
                                then Some (suggestion_response ''character_lookup'' char_matches)
                                else None)
                        | _ \<Rightarrow> None)
                     else None) of
                 Some r \<Rightarrow> Inr r
               | None \<Rightarrow> Inr (character_lookup L db cache query))))"

definition handle_sidekick_query ::
  "(string \<Rightarrow> error + response) \<Rightarrow> libs \<Rightarrow> database \<Rightarrow> (kind \<Rightarrow> cache_entry list) \<Rightarrow> history
     \<Rightarrow> string \<Rightarrow> error + response" where
  "handle_sidekick_query recur L db cache h query =
     (let robin_query = ''robin''
      in case (case handle_ambiguous_query L cache robin_query of
                 Multiple_matches ms names \<Rightarrow>
                   (let char_matches =
                          filter (\<lambda>m. em_entity_type m = Characters
                                       \<and> contains ''robin'' (lower (em_name m))) ms
                    in if length char_matches > 1
                       then Some (suggestion_response ''sidekick_lookup'' char_matches)
                       else None)
               | _ \<Rightarrow> None) of
           Some r \<Rightarrow> Inr r
         | None \<Rightarrow> handle_character_query recur L db cache h robin_query)"

text \<open>The match that \<open>_handle_vehicle_query\<close> looks up, and the handler.\<close>

definition vehicle_match ::
  "libs \<Rightarrow> (kind \<Rightarrow> cache_entry list) \<Rightarrow> string \<Rightarrow> entity_match option" where
  "vehicle_match L cache query =
     (if any_in [''what does'', ''what do'', ''drive'', ''car''] (lower query)
      then find_best_vehicle_match L cache query 70
      else find_best_entity_match L cache query (Some Vehicles) 70)"

definition handle_vehicle_query ::
  "libs \<Rightarrow> database \<Rightarrow> (kind \<Rightarrow> cache_entry list) \<Rightarrow> string \<Rightarrow> response" where
  "handle_vehicle_query L db cache query =
     (if \<not> check_batman_scope query then out_of_scope_response
      else
        (let match = vehicle_match L cache query;
             confidence_threshold =
               (case match of
                  Some m \<Rightarrow> (if em_match_type m = Character_vehicle then 0.4 else 0.6)
                | None \<Rightarrow> 0.6)
         in case match of
              Some m \<Rightarrow>
                (if em_confidence m > confidence_threshold
                    \<and> get_entity_by_id db (em_entity_id m) Vehicles \<noteq> None
                 then definitive_response ''vehicle_lookup'' m
                 else not_found_response ''vehicle_lookup'')
            | None \<Rightarrow> not_found_response ''vehicle_lookup''))"

definition handle_location_query ::
  "libs \<Rightarrow> database \<Rightarrow> (kind \<Rightarrow> cache_entry list) \<Rightarrow> string \<Rightarrow> response" where
  "handle_location_query L db cache query =
     (case find_best_entity_match L cache query (Some Locations) 70 of
        Some m \<Rightarrow>
          (if em_confidence m > 0.6 \<and> get_entity_by_id db (em_entity_id m) Locations \<noteq> None
           then definitive_response ''location_lookup'' m
           else not_found_response ''location_lookup'')
      | None \<Rightarrow> not_found_response ''location_lookup'')"

definition relationship_response :: "ci_relationship_result \<Rightarrow> response" where
  "relationship_response r =
     \<lparr>confidence = cir_confidence r,
      source_entities = cir_primary_id r # take 3 (cir_related_ids r),
      query_type = ''relationship_query'', suggestions = None\<rparr>"

definition handle_relationship_query ::
  "libs \<Rightarrow> database \<Rightarrow> (kind \<Rightarrow> cache_entry list) \<Rightarrow> string \<Rightarrow> response" where
  "handle_relationship_query L db cache query =
     (case ci_handle_relationship_query L db cache query of
        Some r \<Rightarrow> relationship_response r
      | None \<Rightarrow> not_found_response ''relationship_query'')"

definition handle_general_search ::
  "libs \<Rightarrow> database \<Rightarrow> (kind \<Rightarrow> cache_entry list) \<Rightarrow> string \<Rightarrow> response" where
  "handle_general_search L db cache query =
     (if \<not> check_batman_scope query then out_of_scope_response
      else
        (let best_match = find_best_entity_match L cache query None 60;
             accepted =
               (case best_match of
                  Some m \<Rightarrow>
                    (if em_confidence m > 0.6
                        \<and> get_entity_by_id db (em_entity_id m) (em_entity_type m) \<noteq> None
                     then Some m else None)
                | None \<Rightarrow> None)
         in case accepted of
              Some m \<Rightarrow> definitive_response ''general_search'' m
            | None \<Rightarrow>
                (case handle_ambiguous_query L cache query of
                   Multiple_matches ms names \<Rightarrow> suggestion_response ''general_search'' ms
                 | _ \<Rightarrow> not_found_response ''general_search'')))"

definition handle_unknown_query :: response where
  "handle_unknown_query = not_found_response ''unknown''"

definition handle_relationship_processor_result :: "relationship_result \<Rightarrow> response" where
  "handle_relationship_processor_result r =
     \<lparr>confidence = rr_confidence r, source_entities = [rr_primary_id r],
      query_type = rr_query_type r, suggestions = None\<rparr>"

definition handle_comparison_result :: "search_result \<Rightarrow> search_result \<Rightarrow> response" where
  "handle_comparison_result entity1 entity2 =
     \<lparr>confidence = 0.9, source_entities = [sr_entity_id entity1, sr_entity_id entity2],
      query_type = ''comparison'', suggestions = None\<rparr>"

definition handle_relationship_result :: "search_result \<Rightarrow> response" where
  "handle_relationship_result r =
     \<lparr>confidence = sr_confidence r, source_entities = [sr_entity_id r],
      query_type = table_name (sr_entity_type r), suggestions = None\<rparr>"

definition error_response :: response where
  "error_response =
     \<lparr>confidence = 0, source_entities = [], query_type = ''error'', suggestions = None\<rparr>"

text \<open>
  The handler that the fallback keyword classifier selects.
\<close>

definition dispatch ::
  "(string \<Rightarrow> error + response) \<Rightarrow> libs \<Rightarrow> database \<Rightarrow> (kind \<Rightarrow> cache_entry list) \<Rightarrow> history
     \<Rightarrow> string \<Rightarrow> error + response" where
  "dispatch recur L db cache h query =
     (let qt = classify_query query
      in if qt = ''character_lookup'' then handle_character_query recur L db cache h query
         else if qt = ''sidekick_lookup'' then handle_sidekick_query recur L db cache h query
         else if qt = ''vehicle_lookup'' then Inr (handle_vehicle_query L db cache query)
         else if qt = ''location_lookup'' then Inr (handle_location_query L db cache query)
         else if qt = ''relationship_query'' then Inr (handle_relationship_query L db cache query)
         else if qt = ''general_search'' then Inr (handle_general_search L db cache query)
         else Inr handle_unknown_query)"

text \<open>
  The stages that \<open>process_query\<close> tries before the classifier: the relationship
  processor, the two searches of the search engine, and the three handlers of the
  conversation layer. The result is the response of the first stage that answers, nothing
  when none does, or the error that a stage raises.
\<close>

definition early_stages ::
  "libs \<Rightarrow> database \<Rightarrow> (kind \<Rightarrow> cache_entry list) \<Rightarrow> string \<Rightarrow> error + response option" where
  "early_stages L db cache query =
     (case process_relationship_query L db query of
        Some r \<Rightarrow> Inr (Some (handle_relationship_processor_result r))
      | None \<Rightarrow>
     (case search_multi_entity L db query of
        Some es \<Rightarrow> Inr (Some (handle_comparison_result (fst es) (snd es)))
      | None \<Rightarrow>
     (case search_by_relationship L db query of
        Some r \<Rightarrow> Inr (Some (handle_relationship_result r))
      | None \<Rightarrow>
     (case handle_comparative_query L db cache query of
        Inl e \<Rightarrow> Inl e
      | Inr (Some c) \<Rightarrow>
          Inr (Some \<lparr>confidence = cr_confidence c,
                     source_entities = [cr_entity1_id c, cr_entity2_id c],
                     query_type = ''comparative_analysis'', suggestions = None\<rparr>)
      | Inr None \<Rightarrow>
     (case ci_handle_relationship_query L db cache query of
        Some r \<Rightarrow> Inr (Some (relationship_response r))
      | None \<Rightarrow>
     (case handle_multi_entity_query L db cache query of
        Some ids \<Rightarrow>
          Inr (Some \<lparr>confidence = 0.8, source_entities = take 5 ids,
                     query_type = ''multi_entity_query'', suggestions = None\<rparr>)
      | None \<Rightarrow> Inr None))))))"

text \<open>
  \<open>process_query\<close>. The first argument bounds the depth of the calls that the contextual
  follow-up makes to \<open>process_query\<close> itself, as the interpreter's recursion limit does;
  \<open>h\<close> is the conversation history before the call.
\<close>

fun process_query :: "nat \<Rightarrow> libs \<Rightarrow> chatbot \<Rightarrow> history \<Rightarrow> string \<Rightarrow> error + response" where
  "process_query 0 L cb h user_input = Inl RecursionError"
| "process_query (Suc n) L cb h user_input =
     (case conn cb of
        None \<Rightarrow> Inr error_response
      | Some db \<Rightarrow>
          (let query = clean_input user_input;
               h' = h @ [(User, query)]
           in case early_stages L db (entity_cache cb) query of
                Inl e \<Rightarrow> Inl e
              | Inr (Some r) \<Rightarrow> Inr r
              | Inr None \<Rightarrow>
                  dispatch (process_query n L cb h') L db (entity_cache cb) h' query))"

section \<open>Sample data\<close>



text \<open>
  A small store, and stand-ins for the libraries on the sample queries. The scorer gives
  the listed pairs of cleaned query and entity name the listed scores and every other pair
  a score below all thresholds, and the plain ratio is 0 on every pair. The patterns that
  match one of the sample queries are the second comparison pattern of the search engine,
  on \<open>batman vs joker\<close>, and the first character pattern of the vehicle matcher, on
  \<open>what does batman drive\<close>.
\<close>

definition sample_db :: database where
  "sample_db =
     \<lparr>characters =
        [\<lparr>e_id = ''c1'', e_name = ''Batman'', e_description = ''The protector of the city.''\<rparr>,
         \<lparr>e_id = ''c2'', e_name = ''Joker'', e_description = ''A criminal clown.''\<rparr>,
         \<lparr>e_id = ''c3'', e_name = ''Penguin'', e_description = ''A crime boss.''\<rparr>,
         \<lparr>e_id = ''c4'', e_name = ''Robin_(Dick_Grayson)'', e_description = ''The first one.''\<rparr>,
         \<lparr>e_id = ''c5'', e_name = ''Robin_(Tim_Drake)'', e_description = ''The third one.''\<rparr>],
      vehicles =
        [\<lparr>e_id = ''v1'', e_name = ''Batmobile'', e_description = ''An armored road machine.''\<rparr>,
         \<lparr>e_id = ''v2'', e_name = ''Batcycle'', e_description = ''A fast two-wheeler.''\<rparr>,
         \<lparr>e_id = ''v3'', e_name = ''Batplane'', e_description = ''An aircraft.''\<rparr>],
      locations =
        [\<lparr>e_id = ''l1'', e_name = ''Arkham_Asylum'', e_description = ''A hospital.''\<rparr>],
      storylines = [],
      organizations = [],
      character_aliases = [(''c1'', ''Bruce Wayne'')],
      character_powers = [],
      character_locations = [],
      character_relationships = [],
      vehicle_users = [],
      vehicle_weapons = [],
      vehicle_defensive_systems = [],
      vehicle_special_features = [],
      vehicle_specifications = []\<rparr>"

definition sample_scores :: "((string \<times> string) \<times> nat) list" where
  "sample_scores =
     [((''jokr'', ''Joker''), 89),
      ((''bruce wayne'', ''Bruce Wayne''), 100),
      ((''batman'', ''Batman''), 100),
      ((''batcar'', ''Batmobile''), 45),
      ((''batcar'', ''Batcycle''), 57),
      ((''batcar'', ''Batplane''), 57),
      ((''robin'', ''Robin_(Dick_Grayson)''), 90),
      ((''robin'', ''Robin_(Tim_Drake)''), 90),
      ((''pengu jokr'', ''Penguin''), 55),
      ((''pengu jokr'', ''Joker''), 52)]"

definition sample_matches :: "((string \<times> string) \<times> string list) list" where
  "sample_matches =
     [((''(.+?) (?:vs|versus) (.+?)'' @ qend, ''batman vs joker''), [''batman'', ''joker'']),
      ((''what (?:does|do) (.+?) (?:drive|use|pilot|operate)'', ''what does batman drive''),
       [''batman''])]"

definition sample_libs :: libs where
  "sample_libs =
     \<lparr>re_search = (\<lambda>flag pat s. map_of sample_matches (pat, s)),
      re_sub = (\<lambda>flag pat repl s. s),
      wratio = (\<lambda>q c. case map_of sample_scores (q, c) of Some v \<Rightarrow> v | None \<Rightarrow> 0),
      ratio = (\<lambda>q c. 0),
      partial_ratio = (\<lambda>q c. 0),
      token_sort_ratio = (\<lambda>q c. 0),
      fts_match = (\<lambda>k q. None)\<rparr>"

definition sample_bot :: chatbot where
  "sample_bot = init_chatbot (Some sample_db)"

section \<open>The matchers\<close>

lemma select_best_Nil: "select_best [] st = st"
  by (simp add: select_best_def)

lemma select_best_Cons:
  "select_best (c # cs) st =
     select_best cs (if snd c > snd st then (Some (fst c), snd c) else st)"
  by (simp add: select_best_def)

lemma select_best_ge: "snd st \<le> snd (select_best cs st)"
proof (induction cs arbitrary: st)
  case Nil
  show ?case by (simp add: select_best_Nil)
next
  case (Cons c cs)
  have "snd st \<le> snd (if snd c > snd st then (Some (fst c), snd c) else st)" by simp
  also have "\<dots> \<le> snd (select_best (c # cs) st)"
    unfolding select_best_Cons by (rule Cons.IH)
  finally show ?case .
qed

lemma select_best_upper: "c \<in> set cs \<Longrightarrow> snd c \<le> snd (select_best cs st)"
proof (induction cs arbitrary: st)
  case Nil
  then show ?case by simp
next
  case (Cons d cs)
  let ?st' = "if snd d > snd st then (Some (fst d), snd d) else st"
  show ?case
  proof (cases "c = d")
    case True
    have "snd c \<le> snd ?st'" using True by simp
    also have "\<dots> \<le> snd (select_best cs ?st')" by (rule select_best_ge)
    finally show ?thesis by (simp only: select_best_Cons)
  next
    case False
    with Cons.prems have "c \<in> set cs" by simp
    from Cons.IH [OF this] show ?thesis by (simp only: select_best_Cons)
  qed
qed

lemma select_best_member:
  "select_best cs st = st \<or> (\<exists>c\<in>set cs. select_best cs st = (Some (fst c), snd c))"
proof (induction cs arbitrary: st)
  case Nil
  show ?case by (simp add: select_best_Nil)
next
  case (Cons d cs)
  let ?st' = "if snd d > snd st then (Some (fst d), snd d) else st"
  from Cons.IH [of ?st'] show ?case
  proof
    assume a: "select_best cs ?st' = ?st'"
    show ?thesis
    proof (cases "snd d > snd st")
      case True
      with a have "select_best (d # cs) st = (Some (fst d), snd d)"
        by (simp add: select_best_Cons)
      then show ?thesis by simp
    next
      case False
      with a have "select_best (d # cs) st = st" by (simp add: select_best_Cons)
      then show ?thesis by simp
    qed
  next
    assume "\<exists>c\<in>set cs. select_best cs ?st' = (Some (fst c), snd c)"
    then obtain c where "c \<in> set cs" and "select_best cs ?st' = (Some (fst c), snd c)" by blast
    then have "c \<in> set (d # cs)" and "select_best (d # cs) st = (Some (fst c), snd c)"
      by (simp_all add: select_best_Cons)
    then show ?thesis by blast
  qed
qed

lemma fold_select_best_concat:
  "fold (\<lambda>x best. select_best (f x) best) xs st = select_best (concat (map f xs)) st"
  by (induction xs arbitrary: st) (simp_all add: select_best_def)


lemma find_best_entity_match_considered:
  "find_best_entity_match L cache query ty th
     = fst (select_best (considered L cache query ty th) (None, 0))"
  by (simp add: find_best_entity_match_def considered_def Let_def fold_select_best_concat)

lemma process_extract_member:
  "p \<in> set (process_extract L q choices k) \<Longrightarrow> fst p \<in> set choices \<and> snd p = wratio L q (fst p)"
proof -
  assume "p \<in> set (process_extract L q choices k)"
  then have "p \<in> set (sort_key (\<lambda>p. - int (snd p)) (map (\<lambda>c. (c, wratio L q c)) choices))"
    unfolding process_extract_def by (rule in_set_takeD)
  then have "p \<in> set (map (\<lambda>c. (c, wratio L q c)) choices)" by simp
  then show ?thesis by auto
qed

lemma candidate_of_member:
  assumes "c \<in> set (candidate_of entries th k p)"
  shows "\<exists>e\<in>set entries. ce_name e = fst p
         \<and> fst c = entity_match_of e k (real (snd p) / 100)
         \<and> snd c = real (snd p) + calculate_importance_bonus (ce_name e) k * 100
         \<and> max th 50 \<le> snd p"
proof (cases "max th 50 \<le> snd p")
  case False
  then have "candidate_of entries th k p = []" unfolding candidate_of_def by (rule if_not_P)
  with assms show ?thesis by simp
next
  case True
  then have eq: "candidate_of entries th k p =
        (case find (\<lambda>e. ce_name e = fst p) entries of
           Some matched_entity \<Rightarrow>
             [(entity_match_of matched_entity k (real (snd p) / 100),
               real (snd p) + calculate_importance_bonus (ce_name matched_entity) k * 100)]
         | None \<Rightarrow> [])" unfolding candidate_of_def by (rule if_P)
  show ?thesis
  proof (cases "find (\<lambda>e. ce_name e = fst p) entries")
    case None
    with eq assms show ?thesis by simp
  next
    case (Some e)
    with eq assms have ce: "c = (entity_match_of e k (real (snd p) / 100),
                  real (snd p) + calculate_importance_bonus (ce_name e) k * 100)" by simp
    from Some have "e \<in> set entries" and "ce_name e = fst p"
      by (auto simp: find_Some_iff)
    with ce True show ?thesis by auto
  qed
qed

lemma candidates_member:
  assumes "c \<in> set (candidates L cache cq th k)"
  shows "\<exists>e\<in>set (cache k).
           fst c = entity_match_of e k (real (wratio L cq (ce_name e)) / 100)
         \<and> snd c = real (wratio L cq (ce_name e)) + calculate_importance_bonus (ce_name e) k * 100
         \<and> max th 50 \<le> wratio L cq (ce_name e)"
proof -
  from assms obtain p where p: "p \<in> set (process_extract L cq (map ce_name (cache k)) 5)"
    and c: "c \<in> set (candidate_of (cache k) th k p)"
    by (auto simp: candidates_def Let_def split: if_splits)
  from candidate_of_member [OF c] obtain e where e: "e \<in> set (cache k)"
    and n: "ce_name e = fst p"
    and 1: "fst c = entity_match_of e k (real (snd p) / 100)"
    and 2: "snd c = real (snd p) + calculate_importance_bonus (ce_name e) k * 100"
    and 3: "max th 50 \<le> snd p" by blast
  from process_extract_member [OF p] n have s: "snd p = wratio L cq (ce_name e)" by simp
  from e 1 2 3 show ?thesis unfolding s by blast
qed

lemma boosted_match_of_member:
  assumes "m \<in> set (boosted_match_of entries th k p)"
  shows "\<exists>e\<in>set entries. ce_name e = fst p
         \<and> m = entity_match_of e k
                 (min ((real (snd p) + importance_boost (ce_name e) * 0.1) / 100) 1)
         \<and> th \<le> snd p"
proof (cases "th \<le> snd p")
  case False
  then have "boosted_match_of entries th k p = []" unfolding boosted_match_of_def by (rule if_not_P)
  with assms show ?thesis by simp
next
  case True
  then have eq: "boosted_match_of entries th k p =
        (case find (\<lambda>e. ce_name e = fst p) entries of
           Some matched_entity \<Rightarrow>
             [entity_match_of matched_entity k
                (min ((real (snd p) + importance_boost (ce_name matched_entity) * 0.1) / 100) 1)]
         | None \<Rightarrow> [])" unfolding boosted_match_of_def by (rule if_P)
  show ?thesis
  proof (cases "find (\<lambda>e. ce_name e = fst p) entries")
    case None
    with eq assms show ?thesis by simp
  next
    case (Some e)
    with eq assms have ce: "m = entity_match_of e k
                (min ((real (snd p) + importance_boost (ce_name e) * 0.1) / 100) 1)" by simp
    from Some have "e \<in> set entries" and "ce_name e = fst p"
      by (auto simp: find_Some_iff)
    with ce True show ?thesis by blast
  qed
qed

lemma multi_matches_member:
  assumes "m \<in> set (multi_matches L cache cq th k)"
  shows "\<exists>e\<in>set (cache k).
           m = entity_match_of e k
                 (min ((real (wratio L cq (ce_name e)) + importance_boost (ce_name e) * 0.1) / 100) 1)
         \<and> th \<le> wratio L cq (ce_name e)"
proof -
  from assms obtain p where p: "p \<in> set (process_extract L cq (map ce_name (cache k)) 8)"
    and c: "m \<in> set (boosted_match_of (cache k) th k p)"
    by (auto simp: multi_matches_def Let_def split: if_splits)
  from boosted_match_of_member [OF c] obtain e where e: "e \<in> set (cache k)"
    and n: "ce_name e = fst p"
    and 1: "m = entity_match_of e k
                 (min ((real (snd p) + importance_boost (ce_name e) * 0.1) / 100) 1)"
    and 3: "th \<le> snd p" by blast
  from process_extract_member [OF p] n have s: "snd p = wratio L cq (ce_name e)" by simp
  from e 1 3 show ?thesis unfolding s by blast
qed

lemma find_multiple_entities_member:
  assumes "m \<in> set (find_multiple_entities L cache query n th)"
  shows "\<exists>k. m \<in> set (multi_matches L cache (clean_query_for_matching query) th k)"
proof -
  from assms have "m \<in> set (sort_key (\<lambda>m. - em_confidence m)
              (concat (map (multi_matches L cache (clean_query_for_matching query) th) all_kinds)))"
    unfolding find_multiple_entities_def Let_def by (rule in_set_takeD)
  then show ?thesis by auto
qed

lemma considered_member:
  assumes "c \<in> set (considered L cache query ty th)"
  shows "\<exists>k. c \<in> set (candidates L cache (clean_query_for_matching query) th k)"
  using assms by (auto simp: considered_def)

lemma find_best_entity_match_Some:
  assumes "find_best_entity_match L cache query ty th = Some m"
  shows "\<exists>fs. (m, fs) \<in> set (considered L cache query ty th)
            \<and> (\<forall>c\<in>set (considered L cache query ty th). snd c \<le> fs)"
proof -
  let ?cs = "considered L cache query ty th"
  from assms have s: "fst (select_best ?cs (None, 0)) = Some m"
    by (simp add: find_best_entity_match_considered)
  from select_best_member [of ?cs "(None, 0)"] s
  obtain c where c: "c \<in> set ?cs" and sel: "select_best ?cs (None, 0) = (Some (fst c), snd c)"
    by auto
  from sel s have m: "fst c = m" by simp
  have "\<forall>d\<in>set ?cs. snd d \<le> snd c"
  proof
    fix d assume "d \<in> set ?cs"
    from select_best_upper [OF this, of "(None, 0)"] sel show "snd d \<le> snd c" by simp
  qed
  with c m show ?thesis by (intro exI [of _ "snd c"]) auto
qed

lemma first_max_in: "first_max f b xs \<in> set (b # xs)"
  by (induction xs arbitrary: b) auto

lemma importance_boost_nonneg: "0 \<le> importance_boost n"
  by (simp add: importance_boost_def entity_importance_def)

lemma find_best_entity_match_confidence:
  assumes bound: "\<forall>a b. wratio L a b \<le> 100"
    and best: "find_best_entity_match L cache q ty th = Some m"
  shows "0 \<le> em_confidence m \<and> em_confidence m \<le> 1"
proof -
  from find_best_entity_match_Some [OF best] obtain fs
    where "(m, fs) \<in> set (considered L cache q ty th)" by blast
  then obtain k where "(m, fs) \<in> set (candidates L cache (clean_query_for_matching q) th k)"
    using considered_member by blast
  from candidates_member [OF this] obtain e
    where "m = entity_match_of e k (real (wratio L (clean_query_for_matching q) (ce_name e)) / 100)"
    by auto
  then have c: "em_confidence m = real (wratio L (clean_query_for_matching q) (ce_name e)) / 100"
    by (simp add: entity_match_of_def)
  from bound have "wratio L (clean_query_for_matching q) (ce_name e) \<le> 100" by blast
  then have "real (wratio L (clean_query_for_matching q) (ce_name e)) \<le> 100" by simp
  with c show ?thesis by simp
qed

lemma find_multiple_entities_confidence:
  assumes "m \<in> set (find_multiple_entities L cache q n th)"
  shows "0 \<le> em_confidence m \<and> em_confidence m \<le> 1"
proof -
  from assms obtain k where "m \<in> set (multi_matches L cache (clean_query_for_matching q) th k)"
    using find_multiple_entities_member by blast
  from multi_matches_member [OF this] obtain e where
    "m = entity_match_of e k
           (min ((real (wratio L (clean_query_for_matching q) (ce_name e))
                  + importance_boost (ce_name e) * 0.1) / 100) 1)"
    by blast
  then have c: "em_confidence m
      = min ((real (wratio L (clean_query_for_matching q) (ce_name e))
               + importance_boost (ce_name e) * 0.1) / 100) 1"
    by (simp add: entity_match_of_def)
  have "0 \<le> real (wratio L (clean_query_for_matching q) (ce_name e))
               + importance_boost (ce_name e) * 0.1"
    using importance_boost_nonneg [of "ce_name e"] by simp
  with c show ?thesis by simp
qed

lemma semantic_search_confidence:
  assumes "m \<in> set (semantic_search cache q ty n)"
  shows "0 \<le> em_confidence m \<and> em_confidence m \<le> 1"
proof -
  let ?ms = "concat (map (\<lambda>etype.
                      concat (map (\<lambda>e.
                        if keyword_score (extract_keywords q) e > 0 then
                          [\<lparr>em_entity_id = ce_id e, em_entity_type = etype, em_name = ce_name e,
                            em_confidence = min (real (keyword_score (extract_keywords q) e) / 100) 1,
                            em_match_type = Description\<rparr>]
                        else []) (cache etype)))
                 (case ty of Some k \<Rightarrow> [k] | None \<Rightarrow> all_kinds))"
  from assms have "m \<in> set (sort_key (\<lambda>m. - em_confidence m) ?ms)"
    unfolding semantic_search_def Let_def by (rule in_set_takeD)
  then have "m \<in> set ?ms" by simp
  then obtain e where
    "em_confidence m = min (real (keyword_score (extract_keywords q) e) / 100) 1"
    by (auto split: if_splits)
  then show ?thesis by simp
qed

lemma find_character_vehicle_confidence:
  assumes "0 \<le> th" and "find_character_vehicle L cache cn oq th = Some m"
  shows "0 \<le> em_confidence m \<and> em_confidence m \<le> 1 \<and> em_match_type m = Character_vehicle"
proof -
  let ?scored = "filter (\<lambda>p. snd p \<ge> th)
              (map (\<lambda>v. (v, calculate_vehicle_score L v cn oq))
                   (filter (\<lambda>v. is_character_vehicle_match cn (ce_name v)) (cache Vehicles)))"
  from assms(2) obtain p ps where sc: "?scored = p # ps"
    and m: "m = \<lparr>em_entity_id = ce_id (fst (first_max snd p ps)), em_entity_type = Vehicles,
                 em_name = ce_name (fst (first_max snd p ps)),
                 em_confidence = min (real_of_int (snd (first_max snd p ps)) / 100) 1,
                 em_match_type = Character_vehicle\<rparr>"
    by (auto simp: find_character_vehicle_def Let_def split: list.splits)
  have "first_max snd p ps \<in> set ?scored" unfolding sc by (rule first_max_in)
  then have "th \<le> snd (first_max snd p ps)" by simp
  with assms(1) have "0 \<le> real_of_int (snd (first_max snd p ps))" by simp
  with m show ?thesis by simp
qed

lemma find_best_vehicle_match_confidence:
  assumes bound: "\<forall>a b. wratio L a b \<le> 100"
    and best: "find_best_vehicle_match L cache q th = Some m"
  shows "0 \<le> em_confidence m \<and> em_confidence m \<le> 1"
proof -
  from best consider cn oq where "find_character_vehicle L cache cn oq (int (min th 40)) = Some m"
    | q' where "find_best_entity_match L cache q' (Some Vehicles) th = Some m"
    by (auto simp: find_best_vehicle_match_def Let_def split: if_splits)
  then show ?thesis
  proof cases
    case 1
    from find_character_vehicle_confidence [OF _ 1] show ?thesis by simp
  next
    case 2
    from find_best_entity_match_confidence [OF bound 2] show ?thesis .
  qed
qed









section \<open>Numeric comparison of vehicles\<close>





section \<open>The handlers\<close>

lemma character_lookup_shape:
  "character_lookup L db cache q = x \<Longrightarrow>
     (\<exists>m. find_best_entity_match L cache q (Some Characters) 70 = Some m
          \<and> x = definitive_response ''character_lookup'' m)
   \<or> (\<exists>ms. x = suggestion_response ''character_lookup'' ms)
   \<or> x = not_found_response ''character_lookup''"
  by (auto simp: character_lookup_def Let_def split: option.splits ambiguous_result.splits if_splits)

lemma handle_contextual_followup_shape:
  "handle_contextual_followup recur L h q = Inr x \<Longrightarrow>
     (\<exists>q'. recur q' = Inr x) \<or> x = clarification_response"
  by (auto simp: handle_contextual_followup_def split: option.splits)

lemma handle_character_query_shape:
  "handle_character_query recur L db cache h q = Inr x \<Longrightarrow>
     (\<exists>q'. recur q' = Inr x) \<or> x = clarification_response \<or> x = out_of_scope_response
   \<or> (\<exists>m. find_best_entity_match L cache q (Some Characters) 70 = Some m
          \<and> x = definitive_response ''character_lookup'' m)
   \<or> (\<exists>ms. x = suggestion_response ''character_lookup'' ms)
   \<or> x = not_found_response ''character_lookup''"
  unfolding handle_character_query_def Let_def
  using character_lookup_shape [of L db cache q x] handle_contextual_followup_shape [of recur L h q x]
  by (auto split: option.splits ambiguous_result.splits if_splits)

lemma handle_sidekick_query_shape:
  "handle_sidekick_query recur L db cache h q = Inr x \<Longrightarrow>
     (\<exists>q'. recur q' = Inr x) \<or> x = clarification_response \<or> x = out_of_scope_response
   \<or> (\<exists>m q'. find_best_entity_match L cache q' (Some Characters) 70 = Some m
          \<and> x = definitive_response ''character_lookup'' m)
   \<or> (\<exists>ms. x = suggestion_response ''character_lookup'' ms)
   \<or> (\<exists>ms. x = suggestion_response ''sidekick_lookup'' ms)
   \<or> x = not_found_response ''character_lookup''"
  unfolding handle_sidekick_query_def Let_def
  using handle_character_query_shape [of recur L db cache h "''robin''" x]
  by (auto split: option.splits ambiguous_result.splits if_splits)

lemma handle_vehicle_query_shape:
  "handle_vehicle_query L db cache q = x \<Longrightarrow>
     x = out_of_scope_response
   \<or> (\<exists>m. vehicle_match L cache q = Some m \<and> x = definitive_response ''vehicle_lookup'' m)
   \<or> x = not_found_response ''vehicle_lookup''"
  by (auto simp: handle_vehicle_query_def Let_def split: option.splits if_splits)

lemma handle_location_query_shape:
  "handle_location_query L db cache q = x \<Longrightarrow>
     (\<exists>m. find_best_entity_match L cache q (Some Locations) 70 = Some m
          \<and> x = definitive_response ''location_lookup'' m)
   \<or> x = not_found_response ''location_lookup''"
  by (auto simp: handle_location_query_def split: option.splits if_splits)

lemma handle_general_search_shape:
  "handle_general_search L db cache q = x \<Longrightarrow>
     x = out_of_scope_response
   \<or> (\<exists>m. find_best_entity_match L cache q None 60 = Some m
          \<and> x = definitive_response ''general_search'' m)
   \<or> (\<exists>ms. x = suggestion_response ''general_search'' ms)
   \<or> x = not_found_response ''general_search''"
  by (auto simp: handle_general_search_def Let_def split: option.splits ambiguous_result.splits if_splits)

lemma handle_relationship_query_shape:
  "handle_relationship_query L db cache q = x \<Longrightarrow>
     (\<exists>r. ci_handle_relationship_query L db cache q = Some r \<and> x = relationship_response r)
   \<or> x = not_found_response ''relationship_query''"
  by (auto simp: handle_relationship_query_def split: option.splits)

lemma classify_query_range:
  "classify_query q \<in> set [''vehicle_lookup'', ''location_lookup'', ''relationship_query'',
      ''sidekick_lookup'', ''character_lookup'', ''general_search'']"
  by (simp add: classify_query_def Let_def)

lemma vehicle_match_cases:
  "vehicle_match L cache q = Some m \<Longrightarrow>
     find_best_vehicle_match L cache q 70 = Some m
   \<or> find_best_entity_match L cache q (Some Vehicles) 70 = Some m"
  by (simp add: vehicle_match_def split: if_splits)

lemma dispatch_invariant:
  assumes rec: "\<And>q' y. recur q' = Inr y \<Longrightarrow> P y"
    and cl: "P clarification_response" and oos: "P out_of_scope_response"
    and sugg: "\<And>qt ms. qt \<in> set [''character_lookup'', ''sidekick_lookup'', ''general_search'']
                 \<Longrightarrow> P (suggestion_response qt ms)"
    and nf: "\<And>qt. qt \<in> set [''character_lookup'', ''vehicle_lookup'', ''location_lookup'',
                 ''relationship_query'', ''general_search''] \<Longrightarrow> P (not_found_response qt)"
    and best: "\<And>qt m q' ty th. find_best_entity_match L cache q' ty th = Some m \<Longrightarrow>
                 qt \<in> set [''character_lookup'', ''vehicle_lookup'', ''location_lookup'',
                   ''general_search''] \<Longrightarrow> P (definitive_response qt m)"
    and veh: "\<And>m q'. find_best_vehicle_match L cache q' 70 = Some m \<Longrightarrow>
                 P (definitive_response ''vehicle_lookup'' m)"
    and rel: "\<And>r q'. ci_handle_relationship_query L db cache q' = Some r \<Longrightarrow>
                 P (relationship_response r)"
    and d: "dispatch recur L db cache h q = Inr x"
  shows "P x"
proof -
  consider (c) "classify_query q = ''character_lookup''"
    | (s) "classify_query q = ''sidekick_lookup''"
    | (v) "classify_query q = ''vehicle_lookup''"
    | (l) "classify_query q = ''location_lookup''"
    | (r) "classify_query q = ''relationship_query''"
    | (g) "classify_query q = ''general_search''"
    using classify_query_range [of q] by auto
  then show ?thesis
  proof cases
    case c
    with d have "handle_character_query recur L db cache h q = Inr x"
      by (simp add: dispatch_def)
    from handle_character_query_shape [OF this] show ?thesis
      using rec cl oos sugg [of "''character_lookup''"] nf [of "''character_lookup''"]
        best [of _ _ _ _ "''character_lookup''"] by auto
  next
    case s
    with d have "handle_sidekick_query recur L db cache h q = Inr x"
      by (simp add: dispatch_def)
    from handle_sidekick_query_shape [OF this] show ?thesis
      using rec cl oos sugg [of "''character_lookup''"] sugg [of "''sidekick_lookup''"]
        nf [of "''character_lookup''"] best [of _ _ _ _ "''character_lookup''"] by auto
  next
    case v
    with d have "handle_vehicle_query L db cache q = x"
      by (simp add: dispatch_def)
    from handle_vehicle_query_shape [OF this] show ?thesis
      using oos nf [of "''vehicle_lookup''"] best [of _ _ _ _ "''vehicle_lookup''"] veh
        vehicle_match_cases [of L cache q] by auto
  next
    case l
    with d have "handle_location_query L db cache q = x"
      by (simp add: dispatch_def)
    from handle_location_query_shape [OF this] show ?thesis
      using nf [of "''location_lookup''"] best [of _ _ _ _ "''location_lookup''"] by auto
  next
    case r
    with d have "handle_relationship_query L db cache q = x"
      by (simp add: dispatch_def)
    from handle_relationship_query_shape [OF this] show ?thesis
      using nf [of "''relationship_query''"] rel by auto
  next
    case g
    with d have "handle_general_search L db cache q = x"
      by (simp add: dispatch_def)
    from handle_general_search_shape [OF this] show ?thesis
      using oos sugg [of "''general_search''"] nf [of "''general_search''"]
        best [of _ _ _ _ "''general_search''"] by auto
  qed
qed

lemma process_query_invariant:
  assumes err: "P error_response"
    and cl: "P clarification_response" and oos: "P out_of_scope_response"
    and sugg: "\<And>qt ms. qt \<in> set [''character_lookup'', ''sidekick_lookup'', ''general_search'']
                 \<Longrightarrow> P (suggestion_response qt ms)"
    and nf: "\<And>qt. qt \<in> set [''character_lookup'', ''vehicle_lookup'', ''location_lookup'',
                 ''relationship_query'', ''general_search''] \<Longrightarrow> P (not_found_response qt)"
    and best: "\<And>qt m q' ty th. find_best_entity_match L (entity_cache cb) q' ty th = Some m \<Longrightarrow>
                 qt \<in> set [''character_lookup'', ''vehicle_lookup'', ''location_lookup'',
                   ''general_search''] \<Longrightarrow> P (definitive_response qt m)"
    and veh: "\<And>m q'. find_best_vehicle_match L (entity_cache cb) q' 70 = Some m \<Longrightarrow>
                 P (definitive_response ''vehicle_lookup'' m)"
    and rel: "\<And>db r q'. ci_handle_relationship_query L db (entity_cache cb) q' = Some r \<Longrightarrow>
                 P (relationship_response r)"
    and early: "\<And>db q' r. early_stages L db (entity_cache cb) q' = Inr (Some r) \<Longrightarrow> P r"
    and p: "process_query n L cb h q = Inr x"
  shows "P x"
  using p
proof (induction n arbitrary: h q x)
  case 0
  then show ?case by simp
next
  case (Suc n)
  show ?case
  proof (cases "conn cb")
    case None
    with Suc.prems have "x = error_response" by simp
    with err show ?thesis by simp
  next
    case (Some db)
    let ?q = "clean_input q"
    let ?h = "h @ [(User, ?q)]"
    show ?thesis
    proof (cases "early_stages L db (entity_cache cb) ?q")
      case (Inl e)
      with Some Suc.prems show ?thesis by (simp add: Let_def)
    next
      case (Inr res)
      show ?thesis
      proof (cases res)
        case (Some r)
        with Inr \<open>conn cb = Some db\<close> Suc.prems have "x = r" by (simp add: Let_def)
        with early Inr Some show ?thesis by blast
      next
        case None
        with Inr \<open>conn cb = Some db\<close> Suc.prems
        have d: "dispatch (process_query n L cb ?h) L db (entity_cache cb) ?h ?q = Inr x"
          by (simp add: Let_def)
        show ?thesis
        proof (rule dispatch_invariant [OF _ cl oos sugg nf best veh rel d])
          fix q' y assume "process_query n L cb ?h q' = Inr y"
          then show "P y" by (rule Suc.IH)
        qed
      qed
    qed
  qed
qed

lemma process_relationship_query_result:
  assumes "process_relationship_query L db q = Some r"
  shows "rr_confidence r \<in> {1, 0.6, 0.7, 0.5}
       \<and> rr_query_type r \<in> set [''weapons'', ''character_weapons'', ''defenses'', ''features'',
                                   ''specifications'', ''character_locations'']"
proof -
  have w: "\<And>n. process_weapons_query db n = Some r \<Longrightarrow> ?thesis"
    by (auto simp: process_weapons_query_def split: option.splits if_splits prod.splits)
  have d: "\<And>n. process_defense_query db n = Some r \<Longrightarrow> ?thesis"
    by (auto simp: process_defense_query_def split: option.splits if_splits prod.splits)
  have f: "\<And>n. process_features_query db n = Some r \<Longrightarrow> ?thesis"
    by (auto simp: process_features_query_def split: option.splits if_splits prod.splits)
  have s: "\<And>n. process_specifications_query db n = Some r \<Longrightarrow> ?thesis"
    by (auto simp: process_specifications_query_def split: option.splits if_splits prod.splits)
  have l: "\<And>n. process_location_query db n = Some r \<Longrightarrow> ?thesis"
    by (auto simp: process_location_query_def split: option.splits if_splits prod.splits)
  from assms w d f s l show ?thesis
    unfolding process_relationship_query_def by (auto split: option.splits)
qed

lemma find_entity_location_result:
  "find_entity_location L db n = Some r \<Longrightarrow>
     sr_confidence r \<in> {0.9, 0.8} \<and> sr_entity_type r = Locations"
  by (auto simp: find_entity_location_def search_result_of_def
      split: option.splits list.splits if_splits)

lemma find_entity_users_result:
  "find_entity_users L db n = Some r \<Longrightarrow>
     sr_confidence r \<in> {0.9, 0.8} \<and> sr_entity_type r = Characters"
  by (auto simp: find_entity_users_def search_result_of_def
      split: option.splits list.splits if_splits)

lemma search_by_relationship_result:
  "search_by_relationship L db q = Some r \<Longrightarrow>
     sr_confidence r \<in> {0.9, 0.8} \<and> sr_entity_type r \<in> {Locations, Characters}"
  using find_entity_location_result [of L db _ r] find_entity_users_result [of L db _ r]
  by (auto simp: search_by_relationship_def split: option.splits)

lemma enhanced_compare_entities_result:
  "enhanced_compare_entities db e1 e2 t1 t2 ct = Inr c \<Longrightarrow>
     cmp_confidence c \<in> {0.8, 0.6, 0.7, 0.5}"
  by (auto simp: enhanced_compare_entities_def enhanced_character_comparison_def
      enhanced_vehicle_comparison_def compare_vehicle_speed_def compare_vehicle_armor_def
      compare_vehicle_weapons_def compare_vehicle_overall_def compare_entities_fallback_def
      Let_def split: option.splits if_splits)

lemma handle_comparative_query_result:
  assumes "handle_comparative_query L db cache q = Inr (Some c)"
  shows "cr_confidence c \<in> {0.8, 0.6, 0.7, 0.5}"
proof -
  from assms obtain e1 e2 t1 t2 ct c' where
    "enhanced_compare_entities db e1 e2 t1 t2 ct = Inr c'" and "cr_confidence c = cmp_confidence c'"
    by (auto simp: handle_comparative_query_def split: option.splits sum.splits prod.splits)
  with enhanced_compare_entities_result [of db e1 e2 t1 t2 ct c'] show ?thesis by simp
qed

lemma ci_handle_relationship_query_result:
  "ci_handle_relationship_query L db cache q = Some r \<Longrightarrow> cir_confidence r = 0.8"
  by (auto simp: ci_handle_relationship_query_def Let_def
      split: option.splits prod.splits if_splits)

lemma early_stages_result:
  assumes "early_stages L db cache q = Inr (Some r)"
  shows "suggestions r = None
       \<and> confidence r \<in> {1, 0.6, 0.7, 0.5, 0.9, 0.8}
       \<and> query_type r \<in> set [''weapons'', ''character_weapons'', ''defenses'', ''features'',
             ''specifications'', ''character_locations'', ''comparison'', ''locations'',
             ''characters'', ''comparative_analysis'', ''relationship_query'',
             ''multi_entity_query'']"
proof (cases "process_relationship_query L db q")
  case (Some a)
  with assms have "r = handle_relationship_processor_result a" by (simp add: early_stages_def)
  with process_relationship_query_result [OF Some] show ?thesis
    by (auto simp: handle_relationship_processor_result_def)
next
  case n1: None
  show ?thesis
  proof (cases "search_multi_entity L db q")
    case (Some es)
    with n1 assms have "r = handle_comparison_result (fst es) (snd es)"
      by (simp add: early_stages_def)
    then show ?thesis by (simp add: handle_comparison_result_def)
  next
    case n2: None
    show ?thesis
    proof (cases "search_by_relationship L db q")
      case (Some a)
      with n1 n2 assms have "r = handle_relationship_result a" by (simp add: early_stages_def)
      with search_by_relationship_result [OF Some] show ?thesis
        by (auto simp: handle_relationship_result_def)
    next
      case n3: None
      show ?thesis
      proof (cases "handle_comparative_query L db cache q")
        case (Inl e)
        with n1 n2 n3 assms show ?thesis by (simp add: early_stages_def)
      next
        case (Inr res)
        show ?thesis
        proof (cases res)
          case (Some c)
          with Inr n1 n2 n3 assms
          have "r = \<lparr>confidence = cr_confidence c,
                     source_entities = [cr_entity1_id c, cr_entity2_id c],
                     query_type = ''comparative_analysis'', suggestions = None\<rparr>"
            by (simp add: early_stages_def)
          with handle_comparative_query_result [of L db cache q c] Inr Some show ?thesis
            by auto
        next
          case n4: None
          show ?thesis
          proof (cases "ci_handle_relationship_query L db cache q")
            case (Some a)
            with Inr n1 n2 n3 n4 assms have "r = relationship_response a"
              by (simp add: early_stages_def)
            with ci_handle_relationship_query_result [OF Some] show ?thesis
              by (simp add: relationship_response_def)
          next
            case n5: None
            with Inr n1 n2 n3 n4 assms show ?thesis
              by (auto simp: early_stages_def split: option.splits)
          qed
        qed
      qed
    qed
  qed
qed

section \<open>The responses of the pipeline\<close>

lemma sample_wratio_bound: "wratio sample_libs a b \<le> 100"
proof (cases "map_of sample_scores (a, b)")
  case None
  then show ?thesis by (simp add: sample_libs_def)
next
  case (Some v)
  then have "((a, b), v) \<in> set sample_scores" by (rule map_of_SomeD)
  then have "v \<le> 100" by (auto simp: sample_scores_def)
  with Some show ?thesis by (simp add: sample_libs_def)
qed

lemma early_stages_tag:
  "early_stages L db cache q = Inr (Some r) \<Longrightarrow>
     query_type r \<in> set [''weapons'', ''character_weapons'', ''defenses'', ''features'',
             ''specifications'', ''character_locations'', ''comparison'', ''locations'',
             ''characters'', ''comparative_analysis'', ''relationship_query'',
             ''multi_entity_query'']"
  using early_stages_result by blast

lemma early_stages_confidence:
  assumes "early_stages L db cache q = Inr (Some r)"
  shows "0 \<le> confidence r \<and> confidence r \<le> 1"
proof -
  from early_stages_result [OF assms]
  have "confidence r \<in> {1, 0.6, 0.7, 0.5, 0.9, 0.8}" by blast
  then show ?thesis by auto
qed

lemma early_stages_suggestions:
  "early_stages L db cache q = Inr (Some r) \<Longrightarrow> suggestions r = None"
  using early_stages_result by blast

text \<open>
  C2, as stated, fails: \<open>Batman vs Joker\<close> is answered by the comparison of the search
  engine, whose response has the query type \<open>comparison\<close>, which is not in the fixed
  vocabulary.
\<close>

theorem C2_counterexample:
  "process_query 2 sample_libs sample_bot [] ''Batman vs Joker''
     = Inr \<lparr>confidence = 9 / 10, source_entities = [''c1'', ''c2''],
            query_type = ''comparison'', suggestions = None\<rparr>
   \<and> ''comparison'' \<notin> set [''character_lookup'', ''vehicle_lookup'', ''location_lookup'',
         ''relationship_query'', ''multi_entity_query'', ''comparative_analysis'',
         ''general_search'', ''out_of_scope'', ''not_found'', ''error'', ''clarification_needed'',
         ''weapons'', ''defenses'', ''features'', ''specifications'', ''character_locations'']"
proof -
  have "process_query 2 sample_libs sample_bot [] ''Batman vs Joker''
     = Inr \<lparr>confidence = 9 / 10, source_entities = [''c1'', ''c2''],
            query_type = ''comparison'', suggestions = None\<rparr>"
    by code_simp
  then show ?thesis by simp
qed

text \<open>
  C2, amended: the query type of a response of \<open>process_query\<close> is one of fifteen tags of
  the fixed vocabulary (all but \<open>not_found\<close>) or one of the five further tags
  \<open>character_weapons\<close>, \<open>comparison\<close>, \<open>sidekick_lookup\<close>, \<open>characters\<close> and
  \<open>locations\<close>.
\<close>

theorem C2_query_types:
  assumes "process_query n L cb h q = Inr r"
  shows "query_type r \<in> set [''character_lookup'', ''vehicle_lookup'', ''location_lookup'',
           ''relationship_query'', ''multi_entity_query'', ''comparative_analysis'',
           ''general_search'', ''out_of_scope'', ''error'', ''clarification_needed'',
           ''weapons'', ''defenses'', ''features'', ''specifications'', ''character_locations'',
           ''character_weapons'', ''comparison'', ''sidekick_lookup'', ''characters'',
           ''locations'']"
    (is "query_type r \<in> set ?tags")
proof (rule process_query_invariant [where P = "\<lambda>r. query_type r \<in> set ?tags",
      OF _ _ _ _ _ _ _ _ _ assms])
  show "query_type error_response \<in> set ?tags" by (simp add: error_response_def)
  show "query_type clarification_response \<in> set ?tags" by (simp add: clarification_response_def)
  show "query_type out_of_scope_response \<in> set ?tags" by (simp add: out_of_scope_response_def)
next
  fix qt :: string and ms
  assume "qt \<in> set [''character_lookup'', ''sidekick_lookup'', ''general_search'']"
  then show "query_type (suggestion_response qt ms) \<in> set ?tags"
    by (auto simp: suggestion_response_def)
next
  fix qt :: string
  assume "qt \<in> set [''character_lookup'', ''vehicle_lookup'', ''location_lookup'',
                 ''relationship_query'', ''general_search'']"
  then show "query_type (not_found_response qt) \<in> set ?tags"
    by (auto simp: not_found_response_def)
next
  fix qt :: string and m
  assume "qt \<in> set [''character_lookup'', ''vehicle_lookup'', ''location_lookup'',
                   ''general_search'']"
  then show "query_type (definitive_response qt m) \<in> set ?tags"
    by (auto simp: definitive_response_def)
next
  fix m
  show "query_type (definitive_response ''vehicle_lookup'' m) \<in> set ?tags"
    by (simp add: definitive_response_def)
next
  fix x
  show "query_type (relationship_response x) \<in> set ?tags"
    by (simp add: relationship_response_def)
next
  fix db q' x
  assume "early_stages L db (entity_cache cb) q' = Inr (Some x)"
  from early_stages_tag [OF this] show "query_type x \<in> set ?tags" by auto
qed

theorem C2_query_types_witness:
  "process_query 2 sample_libs sample_bot [] ''sidekick''
     = Inr \<lparr>confidence = 1 / 2, source_entities = [], query_type = ''sidekick_lookup'',
            suggestions = Some [''Robin_(Dick_Grayson)'', ''Robin_(Tim_Drake)'']\<rparr>"
proof -
  have a: "process_query 2 sample_libs sample_bot [] ''sidekick''
     = Inr \<lparr>confidence = 1 / 2, source_entities = [], query_type = ''sidekick_lookup'',
            suggestions = Some [''Robin_(Dick_Grayson)'', ''Robin_(Tim_Drake)'']\<rparr>"
    by code_simp
  from C2_query_types [OF a] a show ?thesis by simp
qed


text \<open>
  C9: when the similarity scores of the fuzzy matching library lie between 0 and 100, every
  match that the four matchers produce and every response of \<open>process_query\<close> has a
  confidence between 0 and 1.
\<close>

theorem C9_confidence_bounds:
  assumes bound: "\<forall>a b. wratio L a b \<le> 100"
  shows "(find_best_entity_match L cache q ty th = Some m \<longrightarrow>
            0 \<le> em_confidence m \<and> em_confidence m \<le> 1)
       \<and> (\<forall>m'\<in>set (find_multiple_entities L cache qa ka tha).
            0 \<le> em_confidence m' \<and> em_confidence m' \<le> 1)
       \<and> (\<forall>m'\<in>set (semantic_search cache qb tyb kb).
            0 \<le> em_confidence m' \<and> em_confidence m' \<le> 1)
       \<and> (find_best_vehicle_match L cache qc thc = Some mv \<longrightarrow>
            0 \<le> em_confidence mv \<and> em_confidence mv \<le> 1)
       \<and> (process_query n L cb h qd = Inr r \<longrightarrow> 0 \<le> confidence r \<and> confidence r \<le> 1)"
proof (intro conjI impI ballI)
  assume p: "process_query n L cb h qd = Inr r"
  have "0 \<le> confidence r \<and> confidence r \<le> 1"
  proof (rule process_query_invariant [where P = "\<lambda>r. 0 \<le> confidence r \<and> confidence r \<le> 1",
        OF _ _ _ _ _ _ _ _ _ p])
    fix qt m q' ty' th'
    assume "find_best_entity_match L (entity_cache cb) q' ty' th' = Some m"
    from find_best_entity_match_confidence [OF bound this]
    show "0 \<le> confidence (definitive_response qt m) \<and> confidence (definitive_response qt m) \<le> 1"
      by (simp add: definitive_response_def)
  next
    fix m q'
    assume "find_best_vehicle_match L (entity_cache cb) q' 70 = Some m"
    from find_best_vehicle_match_confidence [OF bound this]
    show "0 \<le> confidence (definitive_response ''vehicle_lookup'' m)
        \<and> confidence (definitive_response ''vehicle_lookup'' m) \<le> 1"
      by (simp add: definitive_response_def)
  next
    fix db x q'
    assume "ci_handle_relationship_query L db (entity_cache cb) q' = Some x"
    from ci_handle_relationship_query_result [OF this]
    show "0 \<le> confidence (relationship_response x) \<and> confidence (relationship_response x) \<le> 1"
      by (simp add: relationship_response_def)
  next
    fix db q' x
    assume "early_stages L db (entity_cache cb) q' = Inr (Some x)"
    then show "0 \<le> confidence x \<and> confidence x \<le> 1" by (rule early_stages_confidence)
  qed (simp_all add: error_response_def clarification_response_def out_of_scope_response_def
      suggestion_response_def not_found_response_def)
  then show "0 \<le> confidence r" and "confidence r \<le> 1" by simp_all
next
  assume "find_best_entity_match L cache q ty th = Some m"
  from find_best_entity_match_confidence [OF bound this]
  show "0 \<le> em_confidence m" and "em_confidence m \<le> 1" by simp_all
next
  fix m' assume "m' \<in> set (find_multiple_entities L cache qa ka tha)"
  from find_multiple_entities_confidence [OF this]
  show "0 \<le> em_confidence m'" and "em_confidence m' \<le> 1" by simp_all
next
  fix m' assume "m' \<in> set (semantic_search cache qb tyb kb)"
  from semantic_search_confidence [OF this]
  show "0 \<le> em_confidence m'" and "em_confidence m' \<le> 1" by simp_all
next
  assume "find_best_vehicle_match L cache qc thc = Some mv"
  from find_best_vehicle_match_confidence [OF bound this]
  show "0 \<le> em_confidence mv" and "em_confidence mv \<le> 1" by simp_all
qed



theorem C9_confidence_bounds_witness:
  "(\<forall>a b. wratio sample_libs a b \<le> 100)
   \<and> find_best_entity_match sample_libs (entity_cache sample_bot) ''Jokr'' None 60
       = Some \<lparr>em_entity_id = ''c2'', em_entity_type = Characters, em_name = ''Joker'',
               em_confidence = 89 / 100, em_match_type = Fuzzy\<rparr>
   \<and> length (find_multiple_entities sample_libs (entity_cache sample_bot) ''Jokr'' 5 50) = 1
   \<and> length (semantic_search (entity_cache sample_bot) ''the criminal clown'' None 5) = 1
   \<and> process_query 2 sample_libs sample_bot [] ''Jokr''
       = Inr \<lparr>confidence = 89 / 100, source_entities = [''c2''], query_type = ''general_search'',
              suggestions = None\<rparr>"
proof -
  have b: "\<forall>a b. wratio sample_libs a b \<le> 100" using sample_wratio_bound by blast
  have 1: "find_best_entity_match sample_libs (entity_cache sample_bot) ''Jokr'' None 60
       = Some \<lparr>em_entity_id = ''c2'', em_entity_type = Characters, em_name = ''Joker'',
               em_confidence = 89 / 100, em_match_type = Fuzzy\<rparr>" by code_simp
  have 2: "length (find_multiple_entities sample_libs (entity_cache sample_bot) ''Jokr'' 5 50) = 1"
    by code_simp
  have 3: "length (semantic_search (entity_cache sample_bot) ''the criminal clown'' None 5) = 1"
    by code_simp
  have 4: "process_query 2 sample_libs sample_bot [] ''Jokr''
       = Inr \<lparr>confidence = 89 / 100, source_entities = [''c2''], query_type = ''general_search'',
              suggestions = None\<rparr>" by code_simp
  from C9_confidence_bounds [OF b, where cache = "entity_cache sample_bot" and q = "''Jokr''"
      and ty = None and th = 60 and qa = "''Jokr''" and ka = 5 and tha = 50
      and qb = "''the criminal clown''" and tyb = None and kb = 5 and n = 2 and cb = sample_bot
      and h = "[]" and qd = "''Jokr''"] b 1 2 3 4
  show ?thesis by simp
qed

text \<open>
  C10: a response of \<open>process_query\<close> that carries suggestions has confidence 0.5 and names
  no entity.
\<close>

theorem C10_suggestions:
  assumes "process_query n L cb h q = Inr r" and "suggestions r = Some s"
  shows "confidence r = 0.5 \<and> source_entities r = []"
proof -
  have "suggestions r \<noteq> None \<longrightarrow> confidence r = 0.5 \<and> source_entities r = []"
  proof (rule process_query_invariant [where
        P = "\<lambda>r. suggestions r \<noteq> None \<longrightarrow> confidence r = 0.5 \<and> source_entities r = []",
        OF _ _ _ _ _ _ _ _ _ assms(1)])
    fix db q' x
    assume "early_stages L db (entity_cache cb) q' = Inr (Some x)"
    from early_stages_suggestions [OF this]
    show "suggestions x \<noteq> None \<longrightarrow> confidence x = 0.5 \<and> source_entities x = []" by simp
  qed (simp_all add: error_response_def clarification_response_def out_of_scope_response_def
      suggestion_response_def not_found_response_def definitive_response_def
      relationship_response_def)
  with assms(2) show ?thesis by simp
qed

theorem C10_suggestions_witness:
  "process_query 2 sample_libs sample_bot [] ''pengu jokr''
     = Inr \<lparr>confidence = 1 / 2, source_entities = [], query_type = ''general_search'',
            suggestions = Some [''Penguin'', ''Joker'']\<rparr>"
proof -
  have a: "process_query 2 sample_libs sample_bot [] ''pengu jokr''
     = Inr \<lparr>confidence = 1 / 2, source_entities = [], query_type = ''general_search'',
            suggestions = Some [''Penguin'', ''Joker'']\<rparr>"
    by code_simp
  from C10_suggestions [OF a, of "[''Penguin'', ''Joker'']"] a show ?thesis by simp
qed


section \<open>Scope and unknown names\<close>

text \<open>
  C1, as stated, fails: \<open>where is metropolis\<close> names a place of the list of foreign
  entities and no Batman term, the classifier sends it to the location handler, which does
  not check the scope, and the answer has the query type \<open>location_lookup\<close>.
\<close>

theorem C1_counterexample:
  "any_in (non_batman_heroes @ non_batman_entities) (lower ''where is metropolis'')
   \<and> \<not> any_in batman_terms (lower ''where is metropolis'')
   \<and> process_query 1 sample_libs sample_bot [] ''where is metropolis''
       = Inr \<lparr>confidence = 0, source_entities = [], query_type = ''location_lookup'',
              suggestions = None\<rparr>"
  by code_simp

text \<open>
  C1, amended: a query with a listed foreign name and no Batman term, that none of the
  stages before the classifier answers and that the classifier sends to the character, the
  vehicle or the general handler, gets the out-of-scope response: query type
  \<open>out_of_scope\<close>, confidence 0, no source entity.
\<close>

theorem C1_out_of_scope:
  assumes c: "conn cb = Some db"
    and e: "early_stages L db (entity_cache cb) (clean_input q) = Inr None"
    and d: "any_in (non_batman_heroes @ non_batman_entities) (lower (clean_input q))"
    and a: "\<not> any_in batman_terms (lower (clean_input q))"
    and r: "classify_query (clean_input q) = ''character_lookup''
            \<or> classify_query (clean_input q) = ''vehicle_lookup''
            \<or> classify_query (clean_input q) = ''general_search''"
  shows "process_query (Suc n) L cb h q = Inr out_of_scope_response"
proof -
  from d a have s: "\<not> check_batman_scope (clean_input q)"
    by (simp add: check_batman_scope_def Let_def)
  have p: "process_query (Suc n) L cb h q
           = dispatch (process_query n L cb (h @ [(User, clean_input q)])) L db (entity_cache cb)
               (h @ [(User, clean_input q)]) (clean_input q)"
    using c e by (simp add: Let_def)
  from r s show ?thesis unfolding p
    by (auto simp: dispatch_def Let_def handle_character_query_def handle_vehicle_query_def
        handle_general_search_def)
qed

theorem C1_out_of_scope_witness:
  "any_in (non_batman_heroes @ non_batman_entities) (lower (clean_input ''Who is Superman?''))
   \<and> \<not> any_in batman_terms (lower (clean_input ''Who is Superman?''))
   \<and> classify_query (clean_input ''Who is Superman?'') = ''character_lookup''
   \<and> process_query 1 sample_libs sample_bot [] ''Who is Superman?'' = Inr out_of_scope_response"
proof -
  have c: "conn sample_bot = Some sample_db" by code_simp
  have e: "early_stages sample_libs sample_db (entity_cache sample_bot)
             (clean_input ''Who is Superman?'') = Inr None" by code_simp
  have d: "any_in (non_batman_heroes @ non_batman_entities)
             (lower (clean_input ''Who is Superman?''))" by code_simp
  have a: "\<not> any_in batman_terms (lower (clean_input ''Who is Superman?''))" by code_simp
  have r: "classify_query (clean_input ''Who is Superman?'') = ''character_lookup''" by code_simp
  from C1_out_of_scope [OF c e d a disjI1, OF r, of 0 "[]"] d a r show ?thesis by simp
qed

text \<open>
  C4, as stated, fails: for \<open>zzqxnonexistent123\<close>, which matches no entity, the query type
  of the response is \<open>general_search\<close>; no handler gives \<open>not_found\<close>.
\<close>

theorem C4_counterexample:
  "find_best_entity_match sample_libs (entity_cache sample_bot) ''zzqxnonexistent123'' None 50
     = None
   \<and> process_query 1 sample_libs sample_bot [] ''zzqxnonexistent123''
       = Inr \<lparr>confidence = 0, source_entities = [], query_type = ''general_search'',
              suggestions = None\<rparr>"
  by code_simp

text \<open>
  A query that scores below 50 against every name of the cache has no match.
\<close>

lemma candidates_below:
  assumes "\<forall>e\<in>set (cache k). wratio L cq (ce_name e) < 50"
  shows "candidates L cache cq th k = []"
proof (cases "candidates L cache cq th k")
  case Nil
  then show ?thesis .
next
  case (Cons c cs)
  then have "c \<in> set (candidates L cache cq th k)" by simp
  from candidates_member [OF this] obtain e where "e \<in> set (cache k)"
    and "max th 50 \<le> wratio L cq (ce_name e)" by blast
  with assms show ?thesis by fastforce
qed

lemma multi_matches_below:
  assumes "\<forall>e\<in>set (cache k). wratio L cq (ce_name e) < th"
  shows "multi_matches L cache cq th k = []"
proof (cases "multi_matches L cache cq th k")
  case Nil
  then show ?thesis .
next
  case (Cons c cs)
  then have "c \<in> set (multi_matches L cache cq th k)" by simp
  from multi_matches_member [OF this] obtain e where "e \<in> set (cache k)"
    and "th \<le> wratio L cq (ce_name e)" by blast
  with assms show ?thesis by fastforce
qed

lemma find_best_entity_match_below:
  assumes "\<forall>k. \<forall>e\<in>set (cache k). wratio L (clean_query_for_matching q) (ce_name e) < 50"
  shows "find_best_entity_match L cache q ty th = None"
proof -
  have "considered L cache q ty th = []"
    using assms by (simp add: considered_def candidates_below)
  then show ?thesis by (simp add: find_best_entity_match_considered select_best_Nil)
qed

lemma find_multiple_entities_below:
  assumes "\<forall>k. \<forall>e\<in>set (cache k). wratio L (clean_query_for_matching q) (ce_name e) < th"
  shows "find_multiple_entities L cache q n th = []"
proof -
  have c: "concat (map (multi_matches L cache (clean_query_for_matching q) th) all_kinds) = []"
    using assms by (simp add: multi_matches_below)
  show ?thesis unfolding find_multiple_entities_def Let_def c by simp
qed

text \<open>
  C4, amended: a query within the scope that no stage before the classifier answers, that
  the classifier sends to the general search and that scores below 50 against every name of
  the cache gets, at every call and whatever the history, the response with query type
  \<open>general_search\<close>, confidence 0 and no source entity.
\<close>

theorem C4_nonsense_query:
  assumes c: "conn cb = Some db"
    and e: "early_stages L db (entity_cache cb) (clean_input q) = Inr None"
    and s: "check_batman_scope (clean_input q)"
    and r: "classify_query (clean_input q) = ''general_search''"
    and b: "\<forall>k. \<forall>e\<in>set (entity_cache cb k).
              wratio L (clean_query_for_matching (clean_input q)) (ce_name e) < 50"
  shows "process_query (Suc n) L cb h q
           = Inr \<lparr>confidence = 0, source_entities = [], query_type = ''general_search'',
                  suggestions = None\<rparr>"
proof -
  have p: "process_query (Suc n) L cb h q
           = dispatch (process_query n L cb (h @ [(User, clean_input q)])) L db (entity_cache cb)
               (h @ [(User, clean_input q)]) (clean_input q)"
    using c e by (simp add: Let_def)
  have m: "find_best_entity_match L (entity_cache cb) (clean_input q) None 60 = None"
    using b by (rule find_best_entity_match_below)
  have a: "handle_ambiguous_query L (entity_cache cb) (clean_input q)
             = No_matches get_random_suggestions"
    using find_multiple_entities_below [OF b] by (simp add: handle_ambiguous_query_def)
  show ?thesis unfolding p
    using r s m a by (simp add: dispatch_def Let_def handle_general_search_def not_found_response_def)
qed

theorem C4_nonsense_query_witness:
  "check_batman_scope (clean_input ''zzqxnonexistent123'')
   \<and> classify_query (clean_input ''zzqxnonexistent123'') = ''general_search''
   \<and> process_query 1 sample_libs sample_bot [] ''zzqxnonexistent123''
       = Inr \<lparr>confidence = 0, source_entities = [], query_type = ''general_search'',
              suggestions = None\<rparr>
   \<and> process_query 3 sample_libs sample_bot [(User, ''zzqxnonexistent123'')]
         ''zzqxnonexistent123''
       = process_query 1 sample_libs sample_bot [] ''zzqxnonexistent123''"
proof -
  have c: "conn sample_bot = Some sample_db" by code_simp
  have e: "early_stages sample_libs sample_db (entity_cache sample_bot)
             (clean_input ''zzqxnonexistent123'') = Inr None" by code_simp
  have s: "check_batman_scope (clean_input ''zzqxnonexistent123'')" by code_simp
  have r: "classify_query (clean_input ''zzqxnonexistent123'') = ''general_search''"
    by code_simp
  have b: "\<forall>k. \<forall>e\<in>set (entity_cache sample_bot k).
              wratio sample_libs (clean_query_for_matching (clean_input ''zzqxnonexistent123''))
                (ce_name e) < 50"
  proof
    fix k
    show "\<forall>e\<in>set (entity_cache sample_bot k).
              wratio sample_libs (clean_query_for_matching (clean_input ''zzqxnonexistent123''))
                (ce_name e) < 50"
      by (induct k; code_simp)
  qed
  from C4_nonsense_query [OF c e s r b, of 0 "[]"]
       C4_nonsense_query [OF c e s r b, of 2 "[(User, ''zzqxnonexistent123'')]"] s r
  show ?thesis by (simp add: numeral_3_eq_3)
qed

section \<open>Suggestions\<close>















section \<open>Confidence gates\<close>







end
